theory Spec2Isabelle
  imports Complex_Main "HOL-Library.Sublist" "HOL-Library.AList"
begin

section \<open>ClipGenius backend: identifier extraction, cache store, analysis pipeline\<close>

text \<open>
  The development follows the four source files of the backend:
  \<^verbatim>\<open>services/youtube.py\<close> (identifier extraction, transcript fetch),
  \<^verbatim>\<open>services/database.py\<close> (the JSON file cache),
  \<^verbatim>\<open>services/ai.py\<close> (the call to the analysis engine) and
  \<^verbatim>\<open>main.py\<close> (the request handlers).
  Python strings are modelled as \<^typ>\<open>string\<close>, a character being a code point below
  256; every exception the code can raise is
  a value of a sum type, and everything the code reads from outside the repository
  (the transcript provider, the HTTP call, the JSON decoder, the clock, the file
  system, the response-model validation) is a field of a record \<open>world\<close>.
\<close>

subsection \<open>Strings\<close>

text \<open>Python's \<^verbatim>\<open>needle in hay\<close> on strings: a contiguous occurrence.\<close>

fun contains :: "string \<Rightarrow> string \<Rightarrow> bool" where
  "contains [] needle = (needle = [])"
| "contains (c # cs) needle = (prefix needle (c # cs) \<or> contains cs needle)"

text \<open>
  \<^verbatim>\<open>str.lower()\<close>, on the ASCII letters. A letter outside ASCII is left as it is; no
  character below 256 lower-cases to an ASCII letter, so the search for an ASCII key word
  in the lower-cased text is the same.
\<close>

definition lower_char :: "char \<Rightarrow> char" where
  "lower_char c =
     (case map_of (zip ''ABCDEFGHIJKLMNOPQRSTUVWXYZ'' ''abcdefghijklmnopqrstuvwxyz'') c of
        None \<Rightarrow> c
      | Some l \<Rightarrow> l)"

definition lower :: "string \<Rightarrow> string" where
  "lower s = map lower_char s"

subsection \<open>\<^verbatim>\<open>services/youtube.py\<close>: \<^verbatim>\<open>extract_video_id\<close>\<close>

text \<open>The character class \<^verbatim>\<open>[a-zA-Z0-9_-]\<close>.\<close>

definition id_char :: "char \<Rightarrow> bool" where
  "id_char c =
     (let n = (of_char c :: nat) in
        (97 \<le> n \<and> n \<le> 122) \<or> (65 \<le> n \<and> n \<le> 90) \<or> (48 \<le> n \<and> n \<le> 57)
        \<or> c = CHR ''_'' \<or> c = CHR ''-'')"

text \<open>
  Each of the three regular expressions is a literal marker followed by the group
  \<^verbatim>\<open>([a-zA-Z0-9_-]{11})\<close>. \<open>match_at\<close> is a match anchored at the head of the
  text and returns the group; \<open>re_search\<close> is \<^verbatim>\<open>re.search\<close>: the leftmost position
  at which the anchored match succeeds.
\<close>

definition match_at :: "string \<Rightarrow> string \<Rightarrow> string option" where
  "match_at lit s =
     (let rest = drop (length lit) s; tok = take 11 rest in
        if prefix lit s \<and> 11 \<le> length rest \<and> list_all id_char tok then Some tok else None)"

fun re_search :: "string \<Rightarrow> string \<Rightarrow> string option" where
  "re_search lit [] = match_at lit []"
| "re_search lit (c # cs) =
     (case match_at lit (c # cs) of Some tok \<Rightarrow> Some tok | None \<Rightarrow> re_search lit cs)"

definition watch_marker :: string where
  "watch_marker = ''youtube.com/watch?v=''"

definition short_marker :: string where
  "short_marker = ''youtu.be/''"

definition embed_marker :: string where
  "embed_marker = ''youtube.com/embed/''"

definition patterns :: "string list" where
  "patterns = [watch_marker, short_marker, embed_marker]"

text \<open>The loop \<^verbatim>\<open>for pattern in patterns\<close>, returning at the first match.\<close>

fun first_match :: "string list \<Rightarrow> string \<Rightarrow> string option" where
  "first_match [] url = None"
| "first_match (p # ps) url =
     (case re_search p url of Some tok \<Rightarrow> Some tok | None \<Rightarrow> first_match ps url)"

definition extract_video_id :: "string \<Rightarrow> string option" where
  "extract_video_id youtube_url = first_match patterns youtube_url"

text \<open>
  The specification's words: a token is 11 characters of the identifier alphabet, and
  a text contains a recognised shape when the marker occurs in it followed by a token.
\<close>

definition valid_token :: "string \<Rightarrow> bool" where
  "valid_token tok = (length tok = 11 \<and> list_all id_char tok)"

definition has_shape :: "string \<Rightarrow> string \<Rightarrow> bool" where
  "has_shape lit url = (\<exists>pre tok suf. url = pre @ lit @ tok @ suf \<and> valid_token tok)"

subsection \<open>JSON values, Python exceptions\<close>

text \<open>
  What \<^verbatim>\<open>json.loads\<close> returns. A Python \<^verbatim>\<open>dict\<close> keeps insertion order, so an object is
  an association list; \<^verbatim>\<open>d[k] = v\<close> is \<^const>\<open>AList.update\<close> (the value is replaced in
  place, a new key is appended) and \<^verbatim>\<open>d[k]\<close> is \<^const>\<open>map_of\<close>.
\<close>

datatype json =
    JNull
  | JBool bool
  | JInt int
  | JFloat real
  | JString string
  | JArray "json list"
  | JObject "(string \<times> json) list"

fun type_name :: "json \<Rightarrow> string" where
  "type_name JNull = ''NoneType''"
| "type_name (JBool b) = ''bool''"
| "type_name (JInt n) = ''int''"
| "type_name (JFloat x) = ''float''"
| "type_name (JString s) = ''str''"
| "type_name (JArray xs) = ''list''"
| "type_name (JObject kvs) = ''dict''"

text \<open>
  The exceptions that reach an \<^verbatim>\<open>except\<close> clause of the repository. The built-in ones
  carry what their message depends on (the type of the operand, the key, the attribute);
  \<open>JSONDecodeError\<close> carries the rejected document; \<open>ExternalError\<close> is any other
  exception raised inside a library (the transcript client, \<^verbatim>\<open>requests\<close>, the file
  system). The text \<^verbatim>\<open>str(e)\<close> is given by the field \<open>exc_text\<close> of the world.
\<close>

datatype py_exc =
    IndexError string
  | KeyError json
  | TypeError string string
  | AttributeError string string
  | JSONDecodeError string
  | Timeout
  | ExternalError string

definition bind_exc :: "py_exc + 'a \<Rightarrow> ('a \<Rightarrow> py_exc + 'b) \<Rightarrow> py_exc + 'b" where
  "bind_exc m f = (case m of Inl e \<Rightarrow> Inl e | Inr x \<Rightarrow> f x)"

text \<open>\<^verbatim>\<open>obj.get(key, default)\<close>: only a \<^verbatim>\<open>dict\<close> has the method.\<close>

definition py_get :: "json \<Rightarrow> string \<Rightarrow> json \<Rightarrow> py_exc + json" where
  "py_get obj k dflt =
     (case obj of
        JObject kvs \<Rightarrow> Inr (case map_of kvs k of Some v \<Rightarrow> v | None \<Rightarrow> dflt)
      | _ \<Rightarrow> Inl (AttributeError (type_name obj) ''get''))"

text \<open>\<^verbatim>\<open>obj[key]\<close> with a string key.\<close>

definition getitem_key :: "json \<Rightarrow> string \<Rightarrow> py_exc + json" where
  "getitem_key obj k =
     (case obj of
        JObject kvs \<Rightarrow> (case map_of kvs k of Some v \<Rightarrow> Inr v | None \<Rightarrow> Inl (KeyError (JString k)))
      | _ \<Rightarrow> Inl (TypeError ''getitem'' (type_name obj)))"

text \<open>
  \<^verbatim>\<open>obj[0]\<close>: the first element of a list, the first character of a string, a
  \<^verbatim>\<open>KeyError\<close> on a decoded object (its keys are strings).
\<close>

definition getitem_0 :: "json \<Rightarrow> py_exc + json" where
  "getitem_0 obj =
     (case obj of
        JArray xs \<Rightarrow> (case xs of [] \<Rightarrow> Inl (IndexError ''list'') | x # _ \<Rightarrow> Inr x)
      | JString s \<Rightarrow> (case s of [] \<Rightarrow> Inl (IndexError ''string'') | c # _ \<Rightarrow> Inr (JString [c]))
      | JObject kvs \<Rightarrow> Inl (KeyError (JInt 0))
      | _ \<Rightarrow> Inl (TypeError ''getitem'' (type_name obj)))"

text \<open>\<^verbatim>\<open>obj[key] = value\<close>.\<close>

definition py_setitem :: "json \<Rightarrow> string \<Rightarrow> json \<Rightarrow> py_exc + json" where
  "py_setitem obj k v =
     (case obj of
        JObject kvs \<Rightarrow> Inr (JObject (AList.update k v kvs))
      | _ \<Rightarrow> Inl (TypeError ''setitem'' (type_name obj)))"

text \<open>
  \<^verbatim>\<open>str.strip()\<close> removes the characters for which \<^verbatim>\<open>str.isspace\<close> holds: below 256
  these are the code points 9 to 13, 28 to 32, 0x85 (next line) and 0xA0 (no-break space).
\<close>

definition is_space :: "char \<Rightarrow> bool" where
  "is_space c =
     (let n = (of_char c :: nat) in
        (9 \<le> n \<and> n \<le> 13) \<or> (28 \<le> n \<and> n \<le> 32) \<or> n = 133 \<or> n = 160)"

definition strip :: "string \<Rightarrow> string" where
  "strip s = rev (dropWhile is_space (rev (dropWhile is_space s)))"

definition strip_method :: "json \<Rightarrow> py_exc + string" where
  "strip_method obj =
     (case obj of JString s \<Rightarrow> Inr (strip s) | _ \<Rightarrow> Inl (AttributeError (type_name obj) ''strip''))"

text \<open>\<^verbatim>\<open>sep.join(parts)\<close>.\<close>

fun join :: "string \<Rightarrow> string list \<Rightarrow> string" where
  "join sep [] = []"
| "join sep [x] = x"
| "join sep (x # y # ys) = x @ sep @ join sep (y # ys)"

subsection \<open>The world outside the repository, and the state\<close>

record segment =
  seg_text :: string
  seg_start :: real
  seg_duration :: real

text \<open>
  The prompt is an f-string of the transcript text, the number of segments and the
  start offsets of the first and the last segment; the model keeps these four values.
\<close>

datatype prompt = Prompt string nat real real

record http_response =
  status_code :: int
  body :: string

text \<open>\<^verbatim>\<open>TimestampItem\<close>.\<close>

record timestamp_item =
  seconds :: int
  time :: string
  reason :: string

text \<open>
  How the write in \<^verbatim>\<open>_save_cache\<close> ends: it succeeds, \<^verbatim>\<open>open(CACHE_FILE, "w")\<close> raises
  (the file is left as it was), or \<^verbatim>\<open>json.dump\<close> raises after the file was truncated.
\<close>

datatype write_outcome = WriteOk | OpenFails py_exc | DumpFails py_exc

text \<open>
  How a JSON decoder ends on a document: with the decoded value, with
  \<^verbatim>\<open>json.JSONDecodeError\<close>, or with another exception (\<^verbatim>\<open>ValueError\<close> on an integer of
  more than 4300 digits, \<^verbatim>\<open>RecursionError\<close> on deep nesting), given by its message.
\<close>

datatype decode_outcome = Decoded json | Malformed | DecoderRaises string

record world =
  api_key :: "string option"
  ytt_fetch :: "string \<Rightarrow> py_exc + segment list"
  requests_post :: "string \<Rightarrow> prompt \<Rightarrow> py_exc + http_response"
  requests_json :: "string \<Rightarrow> decode_outcome"
  json_loads :: "string \<Rightarrow> decode_outcome"
  utcnow_isoformat :: string
  file_write :: write_outcome
  exc_text :: "py_exc \<Rightarrow> string"
  py_format :: "json \<Rightarrow> string"
  validate_timestamps :: "json \<Rightarrow> timestamp_item list option"

text \<open>
  \<open>api_key\<close> is \<^verbatim>\<open>os.getenv("OPENROUTER_API_KEY")\<close>; \<open>ytt_fetch\<close> is
  \<^verbatim>\<open>YouTubeTranscriptApi().fetch\<close> with its snippets; \<open>requests_post\<close> is the HTTP
  call (given the key and the prompt); \<open>requests_json\<close> is \<^verbatim>\<open>response.json()\<close> on the
  body of a response (\<open>Malformed\<close> when the exception it raises is a
  \<^verbatim>\<open>json.JSONDecodeError\<close>) and \<open>json_loads\<close> is \<^verbatim>\<open>json.loads\<close>; \<open>py_format\<close> is
  \<^verbatim>\<open>str\<close> of a decoded value;
  \<open>validate_timestamps\<close> is the validation of the field
  \<^verbatim>\<open>timestamps: list[TimestampItem]\<close> by the response model, \<open>None\<close> when it raises
  \<^verbatim>\<open>ValidationError\<close>.

  The cache file is missing, unreadable (it exists and \<^verbatim>\<open>open\<close> or \<^verbatim>\<open>json.load\<close>
  raises), or holds a JSON value; \<open>FileJson j\<close> stands for a file on which
  \<^verbatim>\<open>json.load\<close> returns \<open>j\<close>, so that \<^verbatim>\<open>json.dump\<close> followed by \<^verbatim>\<open>json.load\<close> is
  the identity.
\<close>

datatype cache_file_state = FileMissing | FileCorrupt | FileJson json

record state =
  cache_file :: cache_file_state
  stdout :: "string list"
  fetch_calls :: nat
  post_calls :: nat

subsection \<open>\<^verbatim>\<open>services/database.py\<close>\<close>

text \<open>\<^verbatim>\<open>_load_cache\<close>\<close>

definition load_cache :: "state \<Rightarrow> json" where
  "load_cache st =
     (case cache_file st of
        FileMissing \<Rightarrow> JObject []
      | FileCorrupt \<Rightarrow> JObject []
      | FileJson j \<Rightarrow> j)"

text \<open>\<^verbatim>\<open>_save_cache\<close>: an exception of the write is printed, not raised.\<close>

definition save_cache :: "world \<Rightarrow> state \<Rightarrow> json \<Rightarrow> state" where
  "save_cache w st cache =
     (case file_write w of
        WriteOk \<Rightarrow> st\<lparr>cache_file := FileJson cache\<rparr>
      | OpenFails e \<Rightarrow> st\<lparr>stdout := stdout st @ [''Failed to save cache: '' @ exc_text w e]\<rparr>
      | DumpFails e \<Rightarrow>
          st\<lparr>cache_file := FileCorrupt,
             stdout := stdout st @ [''Failed to save cache: '' @ exc_text w e]\<rparr>)"

definition analysis_record :: "string \<Rightarrow> string \<Rightarrow> json \<Rightarrow> string \<Rightarrow> json" where
  "analysis_record vid title ts created =
     JObject [(''video_id'', JString vid), (''video_title'', JString title),
              (''timestamps'', ts), (''created_at'', JString created)]"

datatype save_result = SaveOk | SaveFailed string

definition save_analysis :: "world \<Rightarrow> state \<Rightarrow> string \<Rightarrow> string \<Rightarrow> json \<Rightarrow> save_result \<times> state" where
  "save_analysis w st vid title ts =
     (case py_setitem (load_cache st) vid (analysis_record vid title ts (utcnow_isoformat w)) of
        Inl e \<Rightarrow> (SaveFailed (''Failed to save to cache: '' @ exc_text w e), st)
      | Inr cache \<Rightarrow> (SaveOk, save_cache w st cache))"

text \<open>
  \<^verbatim>\<open>get_cached_analysis\<close>: \<open>Some data\<close> is \<^verbatim>\<open>{"found": True, "data": data}\<close>. When the
  file holds a value that is not an object, \<^verbatim>\<open>video_id in cache\<close> is false or raises,
  or it is true (a list or a string containing the identifier) and \<^verbatim>\<open>cache[video_id]\<close>
  raises \<^verbatim>\<open>TypeError\<close>; every one of these ends in \<^verbatim>\<open>{"found": False}\<close>.
\<close>

definition get_cached_analysis :: "state \<Rightarrow> string \<Rightarrow> json option" where
  "get_cached_analysis st vid =
     (case load_cache st of JObject kvs \<Rightarrow> map_of kvs vid | _ \<Rightarrow> None)"

subsection \<open>\<^verbatim>\<open>services/youtube.py\<close>: \<^verbatim>\<open>fetch_transcript\<close>\<close>

datatype fetch_result = FetchOk "segment list" string | FetchFailed string

definition fetch_error :: "world \<Rightarrow> py_exc \<Rightarrow> string" where
  "fetch_error w e =
     (let error_msg = lower (exc_text w e) in
        if contains error_msg ''disabled'' then ''Transcripts are disabled for this video.''
        else if contains error_msg ''no transcript'' \<or> contains error_msg ''not found''
          then ''No transcript found for this video. It might not have captions.''
        else if contains error_msg ''unavailable'' \<or> contains error_msg ''private''
          then ''Video is unavailable. It might be private or deleted.''
        else ''Failed to fetch transcript: '' @ exc_text w e)"

definition fetch_transcript :: "world \<Rightarrow> state \<Rightarrow> string \<Rightarrow> fetch_result \<times> state" where
  "fetch_transcript w st vid =
     (let st' = st\<lparr>fetch_calls := fetch_calls st + 1\<rparr> in
        case ytt_fetch w vid of
          Inr transcript_list \<Rightarrow>
            (FetchOk transcript_list (join '' '' (map seg_text transcript_list)), st')
        | Inl e \<Rightarrow> (FetchFailed (fetch_error w e), st'))"

subsection \<open>\<^verbatim>\<open>services/ai.py\<close>: \<^verbatim>\<open>analyze_transcript\<close>\<close>

definition not_configured :: string where
  "not_configured =
     ''OpenRouter API key not configured. Please add OPENROUTER_API_KEY to your .env file.''"


text \<open>
  The f-string reads \<^verbatim>\<open>transcript_segments[0]\<close> and \<^verbatim>\<open>transcript_segments[-1]\<close>:
  \<^verbatim>\<open>IndexError\<close> on the empty list.
\<close>

definition build_prompt :: "string \<Rightarrow> segment list \<Rightarrow> py_exc + prompt" where
  "build_prompt transcript_text segs =
     (case segs of
        [] \<Rightarrow> Inl (IndexError ''list'')
      | s # _ \<Rightarrow> Inr (Prompt transcript_text (length segs) (seg_start s) (seg_start (last segs))))"

text \<open>
  The outcome of a decoder as a value or an exception; an exception other than
  \<^verbatim>\<open>JSONDecodeError\<close> is an \<open>ExternalError\<close> with its message.
\<close>

definition decoded :: "decode_outcome \<Rightarrow> string \<Rightarrow> py_exc + json" where
  "decoded outcome doc =
     (case outcome of
        Decoded j \<Rightarrow> Inr j
      | Malformed \<Rightarrow> Inl (JSONDecodeError doc)
      | DecoderRaises message \<Rightarrow> Inl (ExternalError message))"

text \<open>\<^verbatim>\<open>json.loads(response_text)\<close>\<close>

definition loads :: "world \<Rightarrow> string \<Rightarrow> py_exc + json" where
  "loads w doc = decoded (json_loads w doc) doc"

text \<open>\<^verbatim>\<open>response.json()\<close>\<close>

definition response_json :: "world \<Rightarrow> http_response \<Rightarrow> py_exc + json" where
  "response_json w resp = decoded (requests_json w (body resp)) (body resp)"

text \<open>\<^verbatim>\<open>f"{detail}"\<close>: a string as it is, any other value through \<^verbatim>\<open>str\<close>.\<close>

definition fstr :: "world \<Rightarrow> json \<Rightarrow> string" where
  "fstr w v = (case v of JString s \<Rightarrow> s | _ \<Rightarrow> py_format w v)"

text \<open>The branch \<^verbatim>\<open>response.status_code != 200\<close>.\<close>

definition api_error :: "world \<Rightarrow> http_response \<Rightarrow> py_exc + string" where
  "api_error w resp =
     bind_exc (response_json w resp) (\<lambda>j.
     bind_exc (py_get j ''error'' (JObject [])) (\<lambda>err.
     bind_exc (py_get err ''message'' (JString (body resp))) (\<lambda>error_detail.
     Inr (''OpenRouter API error: '' @ fstr w error_detail))))"

text \<open>\<^verbatim>\<open>result["choices"][0]["message"]["content"].strip()\<close>\<close>

definition response_content :: "world \<Rightarrow> http_response \<Rightarrow> py_exc + string" where
  "response_content w resp =
     bind_exc (response_json w resp) (\<lambda>result.
     bind_exc (getitem_key result ''choices'') (\<lambda>choices.
     bind_exc (getitem_0 choices) (\<lambda>choice.
     bind_exc (getitem_key choice ''message'') (\<lambda>message.
     bind_exc (getitem_key message ''content'') strip_method))))"

text \<open>
  Removing a Markdown code fence: \<^verbatim>\<open>response_text.split("```")[1]\<close> is the text
  between the leading fence and the next one (or the end), then a leading
  \<^verbatim>\<open>json\<close> is dropped; the result is stripped in both branches.
\<close>

fun until_fence :: "string \<Rightarrow> string" where
  "until_fence [] = []"
| "until_fence (c # cs) = (if prefix ''```'' (c # cs) then [] else c # until_fence cs)"

definition remove_code_fence :: "string \<Rightarrow> string" where
  "remove_code_fence response_text =
     strip (if prefix ''```'' response_text
            then (let inner = until_fence (drop 3 response_text) in
                    if prefix ''json'' inner then drop 4 inner else inner)
            else response_text)"

text \<open>\<^verbatim>\<open>json.loads(response_text)\<close> and \<^verbatim>\<open>parsed.get("timestamps", [])\<close>.\<close>

definition parse_timestamps :: "world \<Rightarrow> string \<Rightarrow> py_exc + json" where
  "parse_timestamps w response_text =
     bind_exc (loads w (remove_code_fence response_text)) (\<lambda>parsed.
     py_get parsed ''timestamps'' (JArray []))"

text \<open>The three \<^verbatim>\<open>except\<close> clauses, in their order.\<close>

definition handle_exc :: "world \<Rightarrow> py_exc \<Rightarrow> string" where
  "handle_exc w e =
     (case e of
        JSONDecodeError doc \<Rightarrow> ''Failed to parse AI response: '' @ exc_text w e
      | Timeout \<Rightarrow> ''AI request timed out. Please try again.''
      | _ \<Rightarrow> ''AI analysis failed: '' @ exc_text w e)"

definition after_response :: "world \<Rightarrow> http_response \<Rightarrow> string + json" where
  "after_response w resp =
     (if status_code resp \<noteq> 200
      then (case api_error w resp of Inl e \<Rightarrow> Inl (handle_exc w e) | Inr msg \<Rightarrow> Inl msg)
      else (case bind_exc (response_content w resp) (parse_timestamps w) of
              Inl e \<Rightarrow> Inl (handle_exc w e)
            | Inr ts \<Rightarrow> Inr ts))"

text \<open>
  The result is \<open>Inl error\<close> for \<^verbatim>\<open>{"success": False, "error": error}\<close> and
  \<open>Inr timestamps\<close> for \<^verbatim>\<open>{"success": True, "timestamps": timestamps}\<close>.
  \<^verbatim>\<open>not OPENROUTER_API_KEY\<close> holds when the variable is unset or empty.
\<close>

definition analyze_transcript ::
  "world \<Rightarrow> state \<Rightarrow> string \<Rightarrow> segment list \<Rightarrow> (string + json) \<times> state" where
  "analyze_transcript w st transcript_text segs =
     (case api_key w of
        None \<Rightarrow> (Inl not_configured, st)
      | Some key \<Rightarrow>
          if key = [] then (Inl not_configured, st)
          else
            (case build_prompt transcript_text segs of
               Inl e \<Rightarrow> (Inl (handle_exc w e), st)
             | Inr p \<Rightarrow>
                 (let st' = st\<lparr>post_calls := post_calls st + 1\<rparr> in
                    case requests_post w key p of
                      Inl e \<Rightarrow> (Inl (handle_exc w e), st')
                    | Inr resp \<Rightarrow> (after_response w resp, st'))))"

subsection \<open>\<^verbatim>\<open>main.py\<close>\<close>

record analyze_response =
  success :: bool
  video_id :: "string option"
  video_title :: "string option"
  timestamps :: "timestamp_item list"
  cached :: bool
  error :: "string option"

text \<open>
  A request ends in a response, in an \<^verbatim>\<open>HTTPException\<close> raised by the handler, or in
  an exception nobody catches, which the framework answers with status 500.
\<close>

datatype http_error = HTTPException int string | InternalServerError

definition status_of :: "http_error + analyze_response \<Rightarrow> int" where
  "status_of r =
     (case r of Inl (HTTPException code detail) \<Rightarrow> code | Inl InternalServerError \<Rightarrow> 500 | Inr _ \<Rightarrow> 200)"

text \<open>The field \<^verbatim>\<open>video_title: str | None\<close>.\<close>

definition validate_title :: "json \<Rightarrow> string option option" where
  "validate_title v = (case v of JString s \<Rightarrow> Some (Some s) | JNull \<Rightarrow> Some None | _ \<Rightarrow> None)"

text \<open>
  \<^verbatim>\<open>AnalyzeResponse(success=True, video_id=..., video_title=..., timestamps=..., cached=...)\<close>:
  the constructor validates its arguments and raises \<^verbatim>\<open>ValidationError\<close>, which no
  handler catches.
\<close>

definition build_response ::
  "world \<Rightarrow> string \<Rightarrow> json \<Rightarrow> json \<Rightarrow> bool \<Rightarrow> http_error + analyze_response" where
  "build_response w vid title ts from_cache =
     (case validate_title title of
        None \<Rightarrow> Inl InternalServerError
      | Some t \<Rightarrow>
          (case validate_timestamps w ts of
             None \<Rightarrow> Inl InternalServerError
           | Some items \<Rightarrow>
               Inr \<lparr>success = True, video_id = Some vid, video_title = t,
                    timestamps = items, cached = from_cache, error = None\<rparr>))"

text \<open>
  The cache-hit branch: \<^verbatim>\<open>data.get("video_title", "Unknown")\<close> and
  \<^verbatim>\<open>data.get("timestamps", [])\<close> raise \<^verbatim>\<open>AttributeError\<close> when the stored value is
  not an object.
\<close>

definition cached_response :: "world \<Rightarrow> string \<Rightarrow> json \<Rightarrow> http_error + analyze_response" where
  "cached_response w vid data =
     (case py_get data ''video_title'' (JString ''Unknown'') of
        Inl e \<Rightarrow> Inl InternalServerError
      | Inr title \<Rightarrow>
          (case py_get data ''timestamps'' (JArray []) of
             Inl e \<Rightarrow> Inl InternalServerError
           | Inr ts \<Rightarrow> build_response w vid title ts True))"

definition invalid_url :: string where
  "invalid_url = ''Invalid YouTube URL. Please provide a valid YouTube video link.''"

definition placeholder_title :: "string \<Rightarrow> string" where
  "placeholder_title vid = ''YouTube Video ('' @ vid @ '')''"

definition analyze_video ::
  "world \<Rightarrow> state \<Rightarrow> string \<Rightarrow> (http_error + analyze_response) \<times> state" where
  "analyze_video w st youtube_url =
     (case extract_video_id youtube_url of
        None \<Rightarrow> (Inl (HTTPException 400 invalid_url), st)
      | Some vid \<Rightarrow>
          if vid = [] then (Inl (HTTPException 400 invalid_url), st)
          else
            (case get_cached_analysis st vid of
               Some data \<Rightarrow> (cached_response w vid data, st)
             | None \<Rightarrow>
                 (case fetch_transcript w st vid of
                    (FetchFailed msg, st1) \<Rightarrow> (Inl (HTTPException 400 msg), st1)
                  | (FetchOk segs transcript_text, st1) \<Rightarrow>
                      (case analyze_transcript w st1 transcript_text segs of
                         (Inl msg, st2) \<Rightarrow> (Inl (HTTPException 500 msg), st2)
                       | (Inr ts, st2) \<Rightarrow>
                           (let title = placeholder_title vid;
                                st3 = snd (save_analysis w st2 vid title ts)
                            in (build_response w vid (JString title) ts False, st3))))))"

definition not_analyzed :: string where
  "not_analyzed = ''No analysis found for this video. Use /api/analyze to analyze it first.''"

definition get_results :: "world \<Rightarrow> state \<Rightarrow> string \<Rightarrow> http_error + analyze_response" where
  "get_results w st vid =
     (case get_cached_analysis st vid of
        None \<Rightarrow> Inl (HTTPException 404 not_analyzed)
      | Some data \<Rightarrow> cached_response w vid data)"

subsection \<open>The specification's words\<close>

text \<open>
  A transcript failure is classified by looking for a key word in the detail text,
  ignoring case: some contiguous part of the text equals the key word up to the case of
  its letters. The kinds are tried in the order of the specification's sentence, and every
  kind has its wording.
\<close>

definition ci_contains :: "string \<Rightarrow> string \<Rightarrow> bool" where
  "ci_contains detail word = (\<exists>s. sublist s detail \<and> lower s = lower word)"

datatype fetch_kind =
    TranscriptsDisabled
  | TranscriptNotFound
  | VideoUnavailable
  | OtherFetchError string

definition classify :: "string \<Rightarrow> fetch_kind" where
  "classify detail =
     (if ci_contains detail ''disabled'' then TranscriptsDisabled
      else if ci_contains detail ''no transcript'' \<or> ci_contains detail ''not found''
        then TranscriptNotFound
      else if ci_contains detail ''unavailable'' \<or> ci_contains detail ''private''
        then VideoUnavailable
      else OtherFetchError detail)"

fun kind_message :: "fetch_kind \<Rightarrow> string" where
  "kind_message TranscriptsDisabled = ''Transcripts are disabled for this video.''"
| "kind_message TranscriptNotFound =
     ''No transcript found for this video. It might not have captions.''"
| "kind_message VideoUnavailable = ''Video is unavailable. It might be private or deleted.''"
| "kind_message (OtherFetchError detail) = ''Failed to fetch transcript: '' @ detail"

text \<open>
  A structured highlight list: an object whose entry \<^verbatim>\<open>timestamps\<close> is a list of objects
  with an integer \<^verbatim>\<open>seconds\<close> and strings \<^verbatim>\<open>time\<close> and \<^verbatim>\<open>reason\<close>.
\<close>

fun as_int :: "json option \<Rightarrow> int option" where
  "as_int (Some (JInt n)) = Some n"
| "as_int _ = None"

fun as_str :: "json option \<Rightarrow> string option" where
  "as_str (Some (JString s)) = Some s"
| "as_str _ = None"

definition exact_item :: "json \<Rightarrow> timestamp_item option" where
  "exact_item v =
     (case v of
        JObject kvs \<Rightarrow>
          (case as_int (map_of kvs ''seconds'') of
             None \<Rightarrow> None
           | Some n \<Rightarrow>
               (case as_str (map_of kvs ''time'') of
                  None \<Rightarrow> None
                | Some t \<Rightarrow>
                    (case as_str (map_of kvs ''reason'') of
                       None \<Rightarrow> None
                     | Some r \<Rightarrow> Some \<lparr>seconds = n, time = t, reason = r\<rparr>)))
      | _ \<Rightarrow> None)"

fun exact_items :: "json list \<Rightarrow> timestamp_item list option" where
  "exact_items [] = Some []"
| "exact_items (v # vs) =
     (case exact_item v of
        None \<Rightarrow> None
      | Some i \<Rightarrow> (case exact_items vs of None \<Rightarrow> None | Some rest \<Rightarrow> Some (i # rest)))"

definition exact_timestamps :: "json \<Rightarrow> timestamp_item list option" where
  "exact_timestamps v = (case v of JArray vs \<Rightarrow> exact_items vs | _ \<Rightarrow> None)"

definition is_highlight_list :: "json \<Rightarrow> bool" where
  "is_highlight_list doc =
     (case doc of
        JObject kvs \<Rightarrow>
          (case map_of kvs ''timestamps'' of
             None \<Rightarrow> False
           | Some ts \<Rightarrow> exact_timestamps ts \<noteq> None)
      | _ \<Rightarrow> False)"

text \<open>
  The invariant of the cache store: when the file holds an object, its keys are pairwise
  different and every value is an object whose \<^verbatim>\<open>video_id\<close> is its key.
\<close>

definition record_id :: "json \<Rightarrow> string option" where
  "record_id v = (case v of JObject fs \<Rightarrow> as_str (map_of fs ''video_id'') | _ \<Rightarrow> None)"

definition store_inv :: "state \<Rightarrow> bool" where
  "store_inv st =
     (case load_cache st of
        JObject kvs \<Rightarrow> distinct (map fst kvs) \<and> list_all (\<lambda>(k, v). record_id v = Some k) kvs
      | _ \<Rightarrow> True)"

definition is_object :: "json \<Rightarrow> bool" where
  "is_object v = (case v of JObject kvs \<Rightarrow> True | _ \<Rightarrow> False)"

text \<open>The number of records stored under a key.\<close>

definition records_under :: "state \<Rightarrow> string \<Rightarrow> nat" where
  "records_under st k =
     (case load_cache st of JObject kvs \<Rightarrow> length (filter (\<lambda>p. fst p = k) kvs) | _ \<Rightarrow> 0)"

subsection \<open>A concrete world for the examples\<close>

text \<open>
  The end-to-end example of the specification: the short link of \<^verbatim>\<open>dQw4w9WgXcQ\<close>, a
  transcript of two segments, an engine that answers with status 200. \<open>engine_world\<close>
  takes the content of the engine's message and how \<^verbatim>\<open>json.loads\<close> ends on it; the body
  of the HTTP response is the JSON text around that content. Each decoder of the example
  world is given on the one document it meets (the body for \<^verbatim>\<open>response.json()\<close>, the
  content for \<^verbatim>\<open>json.loads\<close>). The response model is \<open>exact_timestamps\<close>: it accepts a
  list of objects with an integer \<^verbatim>\<open>seconds\<close> and strings \<^verbatim>\<open>time\<close> and \<^verbatim>\<open>reason\<close>, and
  rejects an item that lacks one of them; the examples give it no other list (the
  validation library also converts some values, such as a numeric string for
  \<^verbatim>\<open>seconds\<close>). No example reaches \<open>py_format\<close>, which is read only when the status is
  not 200.
\<close>

definition demo_id :: string where
  "demo_id = ''dQw4w9WgXcQ''"

definition demo_url :: string where
  "demo_url = ''https://youtu.be/dQw4w9WgXcQ''"

definition demo_segments :: "segment list" where
  "demo_segments =
     [\<lparr>seg_text = ''Hello'', seg_start = 0, seg_duration = 1\<rparr>,
      \<lparr>seg_text = ''world'', seg_start = 1, seg_duration = 1\<rparr>]"

definition json_escape :: "string \<Rightarrow> string" where
  "json_escape s =
     concat (map (\<lambda>c. if c = CHR 0x22 \<or> c = CHR 0x5C then [CHR 0x5C, c] else [c]) s)"

definition engine_body :: "string \<Rightarrow> string" where
  \<open>engine_body content =
     ''{"choices": [{"message": {"content": "'' @ json_escape content @ ''"}}]}''\<close>

definition engine_json :: "string \<Rightarrow> json" where
  "engine_json content =
     JObject [(''choices'', JArray [JObject [(''message'', JObject [(''content'', JString content)])]])]"

definition demo_body_json :: "string \<Rightarrow> string \<Rightarrow> decode_outcome" where
  "demo_body_json content doc =
     (if doc = engine_body content then Decoded (engine_json content) else Malformed)"

definition demo_loads :: "string \<Rightarrow> decode_outcome \<Rightarrow> string \<Rightarrow> decode_outcome" where
  "demo_loads content parsed doc = (if doc = content then parsed else Malformed)"

text \<open>
  The messages of CPython 3.11 for the exceptions of the model. The text of
  \<^verbatim>\<open>JSONDecodeError\<close> is the one for a document whose first character starts no JSON
  value, as in the example that meets it; the text of \<open>Timeout\<close> is never read.
\<close>

fun demo_text :: "py_exc \<Rightarrow> string" where
  "demo_text (ExternalError m) = m"
| "demo_text (IndexError t) = t @ '' index out of range''"
| "demo_text (JSONDecodeError doc) = ''Expecting value: line 1 column 1 (char 0)''"
| "demo_text (KeyError k) = (case k of JString s \<Rightarrow> [CHR 0x27] @ s @ [CHR 0x27] | _ \<Rightarrow> ''0'')"
| "demo_text (TypeError operation t) =
     (if t = ''list'' then ''list indices must be integers or slices, not str''
      else if operation = ''setitem''
        then [CHR 0x27] @ t @ [CHR 0x27] @ '' object does not support item assignment''
      else if t = ''str''
        then ''string indices must be integers, not '' @ [CHR 0x27] @ ''str'' @ [CHR 0x27]
      else [CHR 0x27] @ t @ [CHR 0x27] @ '' object is not subscriptable'')"
| "demo_text (AttributeError t a) =
     [CHR 0x27] @ t @ [CHR 0x27] @ '' object has no attribute '' @ [CHR 0x27] @ a @ [CHR 0x27]"
| "demo_text Timeout = []"

text \<open>
  \<^verbatim>\<open>str\<close> of \<^verbatim>\<open>None\<close>, of a Boolean, of an integer and of a string; on a float or a
  container, whose text no example needs, the name of the type stands for it.
\<close>

fun nat_digits :: "nat \<Rightarrow> string" where
  "nat_digits n =
     (if n < 10 then [''0123456789'' ! n]
      else nat_digits (n div 10) @ [''0123456789'' ! (n mod 10)])"

declare nat_digits.simps [simp del]

fun demo_format :: "json \<Rightarrow> string" where
  "demo_format JNull = ''None''"
| "demo_format (JBool b) = (if b then ''True'' else ''False'')"
| "demo_format (JInt i) = (if i < 0 then CHR ''-'' # nat_digits (nat (- i)) else nat_digits (nat i))"
| "demo_format (JString s) = s"
| "demo_format v = type_name v"

definition engine_world :: "string \<Rightarrow> decode_outcome \<Rightarrow> world" where
  "engine_world content parsed =
     \<lparr>api_key = Some ''sk-or-demo'',
      ytt_fetch = (\<lambda>vid. Inr demo_segments),
      requests_post = (\<lambda>key p. Inr \<lparr>status_code = 200, body = engine_body content\<rparr>),
      requests_json = demo_body_json content,
      json_loads = demo_loads content parsed,
      utcnow_isoformat = ''2025-01-01T00:00:00'',
      file_write = WriteOk,
      exc_text = demo_text,
      py_format = demo_format,
      validate_timestamps = exact_timestamps\<rparr>"

definition st_empty :: state where
  "st_empty = \<lparr>cache_file = FileMissing, stdout = [], fetch_calls = 0, post_calls = 0\<rparr>"

text \<open>The engine answers with the one highlight of the specification's example.\<close>

definition good_content :: string where
  \<open>good_content = ''{"timestamps": [{"seconds": 0, "time": "0:00", "reason": "Opening"}]}''\<close>

definition good_timestamps :: json where
  "good_timestamps =
     JArray [JObject [(''seconds'', JInt 0), (''time'', JString ''0:00''),
                      (''reason'', JString ''Opening'')]]"

definition good_world :: world where
  "good_world = engine_world good_content (Decoded (JObject [(''timestamps'', good_timestamps)]))"

definition good_items :: "timestamp_item list" where
  "good_items = [\<lparr>seconds = 0, time = ''0:00'', reason = ''Opening''\<rparr>]"

text \<open>The write of the cache file is refused.\<close>

definition permission_denied :: py_exc where
  "permission_denied = ExternalError ''[Errno 13] Permission denied: cache.json''"

text \<open>The engine answers with a highlight that has no \<^verbatim>\<open>reason\<close>.\<close>

definition bad_content :: string where
  \<open>bad_content = ''{"timestamps": [{"seconds": 0, "time": "0:00"}]}''\<close>

definition bad_timestamps :: json where
  "bad_timestamps = JArray [JObject [(''seconds'', JInt 0), (''time'', JString ''0:00'')]]"

definition bad_world :: world where
  "bad_world = engine_world bad_content (Decoded (JObject [(''timestamps'', bad_timestamps)]))"

text \<open>The engine answers with an object that has no \<^verbatim>\<open>timestamps\<close>.\<close>

definition moments_content :: string where
  \<open>moments_content = ''{"moments": []}''\<close>

definition moments_world :: world where
  "moments_world = engine_world moments_content (Decoded (JObject [(''moments'', JArray [])]))"

text \<open>The engine answers with prose, which \<^verbatim>\<open>json.loads\<close> rejects.\<close>

definition prose_content :: string where
  "prose_content = ''Sorry, I cannot analyze this video.''"

definition prose_world :: world where
  "prose_world = engine_world prose_content Malformed"

text \<open>The transcript provider raises; its message names disabled subtitles.\<close>

definition disabled_world :: world where
  "disabled_world =
     good_world\<lparr>ytt_fetch := (\<lambda>vid. Inl (ExternalError ''Subtitles are Disabled for this video''))\<rparr>"

text \<open>The transcript provider succeeds with no segment.\<close>

definition silent_world :: world where
  "silent_world = good_world\<lparr>ytt_fetch := (\<lambda>vid. Inr [])\<rparr>"

text \<open>The environment has no \<^verbatim>\<open>OPENROUTER_API_KEY\<close>.\<close>

definition keyless_world :: world where
  "keyless_world = good_world\<lparr>api_key := None\<rparr>"

text \<open>The cache file cannot be opened for writing.\<close>

definition readonly_world :: world where
  "readonly_world = good_world\<lparr>file_write := OpenFails permission_denied\<rparr>"

text \<open>The engine answers with the list itself, not with an object around it.\<close>

definition list_content :: string where
  \<open>list_content = ''[{"seconds": 0, "time": "0:00", "reason": "Opening"}]''\<close>

definition list_world :: world where
  "list_world = engine_world list_content (Decoded good_timestamps)"

text \<open>
  The engine answers with an integer of 4301 digits, on which \<^verbatim>\<open>json.loads\<close> raises
  \<^verbatim>\<open>ValueError\<close>.
\<close>

definition digits_content :: string where
  "digits_content = replicate 4301 (CHR ''1'')"

definition digits_error :: string where
  "digits_error =
     ''Exceeds the limit (4300 digits) for integer string conversion: '' @
     ''value has 4301 digits; use sys.set_int_max_str_digits() to increase the limit''"

definition digits_world :: world where
  "digits_world = engine_world digits_content (DecoderRaises digits_error)"

text \<open>The state after one request in \<open>good_world\<close>, and after one in \<open>bad_world\<close>.\<close>

definition stored_state :: state where
  "stored_state = snd (analyze_video good_world st_empty demo_url)"


section \<open>Properties\<close>

subsection \<open>Strings\<close>

lemma contains_sublist: "contains hay needle = sublist needle hay"
  by (induction hay) (auto simp: sublist_Cons_right)

subsection \<open>Identifier extraction\<close>

lemma match_at_Some:
  "match_at lit s = Some tok \<longleftrightarrow> (\<exists>suf. s = lit @ tok @ suf \<and> valid_token tok)"
proof
  assume m: "match_at lit s = Some tok"
  then have p: "prefix lit s" and l: "11 \<le> length (drop (length lit) s)"
    and a: "list_all id_char (take 11 (drop (length lit) s))"
    and t: "tok = take 11 (drop (length lit) s)"
    by (auto simp: match_at_def Let_def split: if_splits)
  from p have "s = lit @ drop (length lit) s"
    by (auto simp: prefix_def)
  then have "s = lit @ tok @ drop 11 (drop (length lit) s)"
    using t by (metis append_take_drop_id)
  moreover have "valid_token tok"
    using l a t by (simp add: valid_token_def)
  ultimately show "\<exists>suf. s = lit @ tok @ suf \<and> valid_token tok"
    by blast
next
  assume "\<exists>suf. s = lit @ tok @ suf \<and> valid_token tok"
  then obtain suf where s: "s = lit @ tok @ suf" and v: "valid_token tok"
    by blast
  then show "match_at lit s = Some tok"
    by (simp add: match_at_def Let_def valid_token_def)
qed

lemma match_at_None: "match_at lit s = None \<longleftrightarrow> \<not> (\<exists>tok suf. s = lit @ tok @ suf \<and> valid_token tok)"
proof -
  have "match_at lit s = None \<longleftrightarrow> \<not> (\<exists>tok. match_at lit s = Some tok)"
    by auto
  then show ?thesis
    by (simp add: match_at_Some)
qed

lemma has_shape_Nil: "has_shape lit [] \<longleftrightarrow> (\<exists>tok suf. [] = lit @ tok @ suf \<and> valid_token tok)"
  by (auto simp: has_shape_def)

lemma has_shape_Cons:
  "has_shape lit (c # cs) \<longleftrightarrow>
     (\<exists>tok suf. c # cs = lit @ tok @ suf \<and> valid_token tok) \<or> has_shape lit cs"
proof
  assume "has_shape lit (c # cs)"
  then obtain pre tok suf where e: "c # cs = pre @ lit @ tok @ suf" and v: "valid_token tok"
    by (auto simp: has_shape_def)
  show "(\<exists>tok suf. c # cs = lit @ tok @ suf \<and> valid_token tok) \<or> has_shape lit cs"
  proof (cases pre)
    case Nil
    with e v show ?thesis by auto
  next
    case (Cons p pre')
    with e have "cs = pre' @ lit @ tok @ suf" by simp
    with v have "has_shape lit cs" unfolding has_shape_def by blast
    then show ?thesis by simp
  qed
next
  assume "(\<exists>tok suf. c # cs = lit @ tok @ suf \<and> valid_token tok) \<or> has_shape lit cs"
  then show "has_shape lit (c # cs)"
  proof
    assume "\<exists>tok suf. c # cs = lit @ tok @ suf \<and> valid_token tok"
    then obtain tok suf where "c # cs = [] @ lit @ tok @ suf" "valid_token tok" by auto
    then show ?thesis unfolding has_shape_def by blast
  next
    assume "has_shape lit cs"
    then obtain pre tok suf where "cs = pre @ lit @ tok @ suf" "valid_token tok"
      by (auto simp: has_shape_def)
    then have "c # cs = (c # pre) @ lit @ tok @ suf" "valid_token tok" by auto
    then show ?thesis unfolding has_shape_def by blast
  qed
qed

lemma re_search_None: "re_search lit url = None \<longleftrightarrow> \<not> has_shape lit url"
proof (induction url)
  case Nil
  show ?case by (simp add: match_at_None has_shape_Nil)
next
  case (Cons c cs)
  show ?case
  proof (cases "match_at lit (c # cs)")
    case None
    then show ?thesis
      using Cons by (simp add: has_shape_Cons) (simp add: match_at_None)
  next
    case (Some tok)
    then have "\<exists>tok suf. c # cs = lit @ tok @ suf \<and> valid_token tok"
      by (auto simp: match_at_Some)
    with Some show ?thesis
      by (simp add: has_shape_Cons)
  qed
qed

lemma re_search_Some_valid: "re_search lit url = Some tok \<Longrightarrow> valid_token tok"
  by (induction url) (auto simp: match_at_Some split: option.splits)

lemma re_search_short: "length url < length lit + 11 \<Longrightarrow> re_search lit url = None"
  by (auto simp: re_search_None has_shape_def valid_token_def)

lemma re_search_here:
  "valid_token tok \<Longrightarrow> re_search lit (lit @ tok @ suf) = Some tok"
proof -
  assume v: "valid_token tok"
  then have m: "match_at lit (lit @ tok @ suf) = Some tok"
    by (auto simp: match_at_Some)
  show ?thesis
  proof (cases "lit @ tok @ suf")
    case Nil
    with m show ?thesis by simp
  next
    case (Cons c cs)
    with m show ?thesis by simp
  qed
qed

lemma re_search_skip:
  "match_at lit (c # cs) = None \<Longrightarrow> re_search lit (c # cs) = re_search lit cs"
  by simp

lemma match_at_mismatch: "\<not> prefix lit s \<Longrightarrow> match_at lit s = None"
  by (simp add: match_at_def Let_def)

lemma extract_watch:
  "valid_token tok \<Longrightarrow> extract_video_id (''https://www.youtube.com/watch?v='' @ tok @ suf) = Some tok"
  using re_search_here[of tok watch_marker suf]
  by (simp add: extract_video_id_def patterns_def match_at_mismatch watch_marker_def)

lemma extract_short:
  "valid_token tok \<Longrightarrow> extract_video_id (''https://youtu.be/'' @ tok) = Some tok"
  using re_search_here[of tok short_marker "[]"] re_search_short[of tok watch_marker]
  by (simp add: extract_video_id_def patterns_def match_at_mismatch watch_marker_def
      short_marker_def valid_token_def)

lemma extract_embed:
  "valid_token tok \<Longrightarrow> extract_video_id (''https://www.youtube.com/embed/'' @ tok) = Some tok"
  using re_search_here[of tok embed_marker "[]"] re_search_short[of tok watch_marker]
    re_search_short[of tok short_marker]
  by (simp add: extract_video_id_def patterns_def match_at_mismatch watch_marker_def
      short_marker_def embed_marker_def valid_token_def)

lemma extract_priority:
  "extract_video_id url =
     (case re_search watch_marker url of
        Some t \<Rightarrow> Some t
      | None \<Rightarrow> (case re_search short_marker url of
                   Some t \<Rightarrow> Some t
                 | None \<Rightarrow> re_search embed_marker url))"
  by (simp add: extract_video_id_def patterns_def split: option.splits)

lemma extract_None:
  "extract_video_id url = None \<longleftrightarrow>
     \<not> has_shape watch_marker url \<and> \<not> has_shape short_marker url \<and> \<not> has_shape embed_marker url"
  by (simp add: extract_priority re_search_None [symmetric] split: option.splits)

lemma extract_Some_valid: "extract_video_id url = Some t \<Longrightarrow> valid_token t"
  by (auto simp: extract_priority split: option.splits dest: re_search_Some_valid)

lemma extract_Some_nonempty: "extract_video_id url = Some t \<Longrightarrow> t \<noteq> []"
  by (auto dest: extract_Some_valid simp: valid_token_def)

text \<open>
  Claim C8. For a token \<open>tok\<close> of 11 characters of the identifier alphabet, the watch-page,
  short-link and embed-player URLs built on \<open>tok\<close> all extract to \<open>tok\<close>. For every text
  \<open>url\<close>, the result is that of the first marker, in the order watch, short, embed,
  whose search succeeds; and the result is \<open>None\<close>, an ordinary value, exactly when
  \<open>url\<close> contains none of the three shapes.
\<close>

theorem extract_video_id_shapes:
  "valid_token tok \<Longrightarrow>
     extract_video_id (''https://www.youtube.com/watch?v='' @ tok) = Some tok
   \<and> extract_video_id (''https://youtu.be/'' @ tok) = Some tok
   \<and> extract_video_id (''https://www.youtube.com/embed/'' @ tok) = Some tok
   \<and> extract_video_id url =
       (case re_search watch_marker url of
          Some t \<Rightarrow> Some t
        | None \<Rightarrow> (case re_search short_marker url of
                     Some t \<Rightarrow> Some t
                   | None \<Rightarrow> re_search embed_marker url))
   \<and> (extract_video_id url = None) =
       (\<not> has_shape watch_marker url \<and> \<not> has_shape short_marker url
        \<and> \<not> has_shape embed_marker url)"
  using extract_watch[of tok "[]"] extract_short[of tok] extract_embed[of tok]
    extract_priority[of url] extract_None[of url]
  by simp

theorem extract_video_id_shapes_witness:
  "valid_token ''dQw4w9WgXcQ''
   \<and> extract_video_id ''https://www.youtube.com/watch?v=dQw4w9WgXcQ'' = Some ''dQw4w9WgXcQ''
   \<and> extract_video_id ''https://youtu.be/dQw4w9WgXcQ'' = Some ''dQw4w9WgXcQ''
   \<and> extract_video_id ''https://www.youtube.com/embed/dQw4w9WgXcQ'' = Some ''dQw4w9WgXcQ''
   \<and> extract_video_id ''not a video link'' = None
   \<and> \<not> has_shape watch_marker ''not a video link''
   \<and> \<not> has_shape short_marker ''not a video link''
   \<and> \<not> has_shape embed_marker ''not a video link''"
proof -
  have v: "valid_token ''dQw4w9WgXcQ''"
    by (simp add: valid_token_def id_char_def)
  have n: "extract_video_id ''not a video link'' = None"
    by (simp add: extract_video_id_def patterns_def match_at_def watch_marker_def
        short_marker_def embed_marker_def)
  show ?thesis
    using v n extract_video_id_shapes [OF v, of "''not a video link''", unfolded append.simps]
    by blast
qed

subsection \<open>Case-insensitive search\<close>

lemma sublist_map_back:
  assumes "sublist t (map f hay)"
  shows "\<exists>s. sublist s hay \<and> map f s = t"
proof -
  from assms obtain ps ss where "map f hay = ps @ t @ ss"
    unfolding sublist_def by blast
  then have "\<exists>us vs. hay = us @ vs \<and> ps = map f us \<and> t @ ss = map f vs"
    by (simp add: map_eq_append_conv)
  then obtain ps' r where h: "hay = ps' @ r" and r: "t @ ss = map f r"
    by blast
  from r have "\<exists>us vs. r = us @ vs \<and> t = map f us \<and> ss = map f vs"
    by (simp add: append_eq_map_conv)
  then obtain s ss' where "r = s @ ss'" and "t = map f s"
    by blast
  with h have "hay = ps' @ s @ ss'" "map f s = t"
    by simp_all
  then show ?thesis
    unfolding sublist_def by blast
qed

lemma sublist_map_forw: "sublist s hay \<Longrightarrow> sublist (map f s) (map f hay)"
  unfolding sublist_def by (metis map_append)

lemma ci_contains_lower: "ci_contains detail word \<longleftrightarrow> contains (lower detail) (lower word)"
  unfolding ci_contains_def contains_sublist lower_def
  using sublist_map_back[of "map lower_char word" lower_char detail]
    sublist_map_forw[of _ detail lower_char]
  by metis

lemma lower_words:
  "lower ''disabled'' = ''disabled''" "lower ''no transcript'' = ''no transcript''"
  "lower ''not found'' = ''not found''" "lower ''unavailable'' = ''unavailable''"
  "lower ''private'' = ''private''"
  by (simp_all add: lower_def lower_char_def)

lemma fetch_error_classify: "fetch_error w e = kind_message (classify (exc_text w e))"
  using lower_words
  by (simp add: fetch_error_def classify_def ci_contains_lower Let_def)

subsection \<open>The branches of \<open>analyze_video\<close>\<close>

lemma analyze_video_invalid:
  "extract_video_id url = None \<Longrightarrow>
     analyze_video w st url = (Inl (HTTPException 400 invalid_url), st)"
  by (simp add: analyze_video_def)

lemma analyze_video_hit:
  "extract_video_id url = Some vid \<Longrightarrow> get_cached_analysis st vid = Some data \<Longrightarrow>
     analyze_video w st url = (cached_response w vid data, st)"
  by (frule extract_Some_nonempty) (simp add: analyze_video_def)

lemma analyze_video_fetch_failed:
  "extract_video_id url = Some vid \<Longrightarrow> get_cached_analysis st vid = None \<Longrightarrow>
   ytt_fetch w vid = Inl e \<Longrightarrow>
     analyze_video w st url =
       (Inl (HTTPException 400 (fetch_error w e)), st\<lparr>fetch_calls := fetch_calls st + 1\<rparr>)"
  by (frule extract_Some_nonempty) (simp add: analyze_video_def fetch_transcript_def)

lemma analyze_video_analysis:
  "extract_video_id url = Some vid \<Longrightarrow> get_cached_analysis st vid = None \<Longrightarrow>
   ytt_fetch w vid = Inr segs \<Longrightarrow>
     analyze_video w st url =
       (case analyze_transcript w (st\<lparr>fetch_calls := fetch_calls st + 1\<rparr>)
               (join '' '' (map seg_text segs)) segs of
          (Inl msg, st2) \<Rightarrow> (Inl (HTTPException 500 msg), st2)
        | (Inr ts, st2) \<Rightarrow>
            (build_response w vid (JString (placeholder_title vid)) ts False,
             snd (save_analysis w st2 vid (placeholder_title vid) ts)))"
  by (frule extract_Some_nonempty)
    (simp add: analyze_video_def fetch_transcript_def Let_def split: prod.splits sum.splits)

lemma analyze_video_success:
  assumes "extract_video_id url = Some vid" and "get_cached_analysis st vid = None"
    and "fetch_transcript w st vid = (FetchOk segs ftext, st1)"
    and "analyze_transcript w st1 ftext segs = (Inr ts, st2)"
  shows "analyze_video w st url =
           (build_response w vid (JString (placeholder_title vid)) ts False,
            snd (save_analysis w st2 vid (placeholder_title vid) ts))"
  using assms extract_Some_nonempty[OF assms(1)]
  by (simp add: analyze_video_def Let_def)

lemma analyze_transcript_reply:
  assumes "api_key w = Some key" and "key \<noteq> []" and "build_prompt ftext segs = Inr p"
    and "requests_post w key p = Inr resp" and "status_code resp = 200"
    and "response_content w resp = Inr content"
  shows "analyze_transcript w st ftext segs =
           ((case loads w (remove_code_fence content) of
               Inl e \<Rightarrow> Inl (handle_exc w e)
             | Inr parsed \<Rightarrow>
                 (case py_get parsed ''timestamps'' (JArray []) of
                    Inl e \<Rightarrow> Inl (handle_exc w e)
                  | Inr ts \<Rightarrow> Inr ts)),
            st\<lparr>post_calls := post_calls st + 1\<rparr>)"
  using assms
  by (simp add: analyze_transcript_def after_response_def bind_exc_def parse_timestamps_def
      split: sum.splits)

lemma cache_file_analyze_transcript:
  "cache_file (snd (analyze_transcript w st t segs)) = cache_file st"
  by (simp add: analyze_transcript_def Let_def split: option.splits sum.splits)

subsection \<open>The example world\<close>

lemma demo_extract: "extract_video_id demo_url = Some demo_id"
  by (simp add: demo_url_def demo_id_def extract_video_id_def patterns_def match_at_def
      watch_marker_def short_marker_def embed_marker_def id_char_def)

lemma no_link_extract: "extract_video_id ''not a video link'' = None"
  by (simp add: extract_video_id_def patterns_def match_at_def watch_marker_def
      short_marker_def embed_marker_def)

lemma demo_miss: "get_cached_analysis st_empty vid = None"
  by (simp add: get_cached_analysis_def load_cache_def st_empty_def)

lemma demo_contents_clean:
  "remove_code_fence (strip good_content) = good_content"
  "remove_code_fence (strip bad_content) = bad_content"
  "remove_code_fence (strip moments_content) = moments_content"
  "remove_code_fence (strip prose_content) = prose_content"
  "remove_code_fence (strip list_content) = list_content"
  by (simp_all add: remove_code_fence_def strip_def is_space_def good_content_def bad_content_def
      moments_content_def prose_content_def list_content_def)

text \<open>A text that neither starts nor ends with white space is left as it is.\<close>

lemma strip_id:
  assumes "s \<noteq> []" and "\<not> is_space (hd s)" and "\<not> is_space (last s)"
  shows "strip s = s"
proof -
  have "dropWhile is_space s = s"
    using assms(2) by (simp add: dropWhile_eq_self_iff)
  moreover have "dropWhile is_space (rev s) = rev s"
    using assms(1,3) by (simp add: dropWhile_eq_self_iff hd_rev)
  ultimately show ?thesis
    by (simp add: strip_def)
qed

lemma digits_content_Cons: "digits_content = CHR ''1'' # replicate 4300 (CHR ''1'')"
proof -
  have "(4301 :: nat) = Suc 4300" by simp
  then show ?thesis
    unfolding digits_content_def by (simp only: replicate_Suc)
qed

lemma digits_content_clean: "remove_code_fence (strip digits_content) = digits_content"
proof -
  have n: "digits_content \<noteq> []" and h: "hd digits_content = CHR ''1''"
    by (simp_all only: digits_content_Cons list.sel list.distinct not_False_eq_True)
  have "last digits_content = CHR ''1''"
    unfolding digits_content_def by (rule last_replicate) simp
  with n h have s: "strip digits_content = digits_content"
    by (intro strip_id) (simp_all add: is_space_def)
  have "\<not> prefix ''```'' digits_content"
    by (subst digits_content_Cons) simp
  with s show ?thesis
    by (simp add: remove_code_fence_def)
qed

lemma engine_content:
  "response_content (engine_world content parsed)
     \<lparr>status_code = 200, body = engine_body content\<rparr> = Inr (strip content)"
  by (simp add: response_content_def response_json_def decoded_def engine_world_def
      demo_body_json_def engine_json_def bind_exc_def getitem_key_def getitem_0_def
      strip_method_def)

lemma engine_fetch:
  "fetch_transcript (engine_world content parsed) st vid =
     (FetchOk demo_segments ''Hello world'', st\<lparr>fetch_calls := fetch_calls st + 1\<rparr>)"
  by (simp add: fetch_transcript_def engine_world_def demo_segments_def)

lemma demo_prompt:
  "build_prompt ''Hello world'' demo_segments = Inr (Prompt ''Hello world'' 2 0 1)"
  by (simp add: build_prompt_def demo_segments_def)

lemma demo_join: "join '' '' (map seg_text demo_segments) = ''Hello world''"
  by (simp add: demo_segments_def)

lemma engine_analysis:
  assumes "remove_code_fence (strip content) = content"
  shows "analyze_transcript (engine_world content parsed) st ''Hello world'' demo_segments =
           ((case parsed of
               Decoded doc \<Rightarrow>
                 (case py_get doc ''timestamps'' (JArray []) of
                    Inl e \<Rightarrow> Inl (handle_exc (engine_world content parsed) e)
                  | Inr ts \<Rightarrow> Inr ts)
             | Malformed \<Rightarrow>
                 Inl (''Failed to parse AI response: '' @ demo_text (JSONDecodeError content))
             | DecoderRaises message \<Rightarrow> Inl (''AI analysis failed: '' @ message)),
            st\<lparr>post_calls := post_calls st + 1\<rparr>)"
proof -
  let ?w = "engine_world content parsed"
  have "analyze_transcript ?w st ''Hello world'' demo_segments =
           ((case loads ?w (remove_code_fence (strip content)) of
               Inl e \<Rightarrow> Inl (handle_exc ?w e)
             | Inr doc \<Rightarrow>
                 (case py_get doc ''timestamps'' (JArray []) of
                    Inl e \<Rightarrow> Inl (handle_exc ?w e)
                  | Inr ts \<Rightarrow> Inr ts)),
            st\<lparr>post_calls := post_calls st + 1\<rparr>)"
    by (rule analyze_transcript_reply [where key = "''sk-or-demo''"
          and p = "Prompt ''Hello world'' 2 0 1"
          and resp = "\<lparr>status_code = 200, body = engine_body content\<rparr>"])
      (simp_all add: engine_content demo_prompt, simp_all add: engine_world_def)
  moreover have "loads ?w content = decoded parsed content"
    by (simp add: loads_def engine_world_def demo_loads_def)
  moreover have "handle_exc ?w (JSONDecodeError content) =
      ''Failed to parse AI response: '' @ demo_text (JSONDecodeError content)"
    and "handle_exc ?w (ExternalError message) = ''AI analysis failed: '' @ message" for message
    by (simp_all add: handle_exc_def engine_world_def)
  ultimately show ?thesis
    using assms by (simp add: decoded_def split: decode_outcome.splits)
qed

lemma good_analysis:
  "analyze_transcript good_world st ''Hello world'' demo_segments =
     (Inr good_timestamps, st\<lparr>post_calls := post_calls st + 1\<rparr>)"
  unfolding good_world_def
  by (simp add: engine_analysis demo_contents_clean py_get_def)

lemma bad_analysis:
  "analyze_transcript bad_world st ''Hello world'' demo_segments =
     (Inr bad_timestamps, st\<lparr>post_calls := post_calls st + 1\<rparr>)"
  unfolding bad_world_def
  by (simp add: engine_analysis demo_contents_clean py_get_def)

lemma good_validation: "validate_timestamps good_world good_timestamps = Some good_items"
  by (simp add: good_world_def engine_world_def exact_timestamps_def exact_item_def
      good_timestamps_def good_items_def)

lemma bad_validation: "exact_timestamps bad_timestamps = None"
  by (simp add: exact_timestamps_def exact_item_def bad_timestamps_def)

subsection \<open>Transcript failures\<close>

text \<open>
  Claim C5. When the transcript provider raises, \<open>fetch_transcript\<close> returns the wording of
  the kind that the specification's classification gives to the text of the exception:
  the key words are searched ignoring case, \<^verbatim>\<open>disabled\<close> first, then
  \<^verbatim>\<open>no transcript\<close> or \<^verbatim>\<open>not found\<close>, then \<^verbatim>\<open>unavailable\<close> or \<^verbatim>\<open>private\<close>, and any
  other text gives the remaining kind, which carries the text. A request that reaches the
  fetch answers 400 with that wording; in particular a text containing \<^verbatim>\<open>disabled\<close> in
  any case answers 400 with the wording of disabled transcripts.
\<close>

theorem transcript_failure_classified:
  "ytt_fetch w vid = Inl e \<Longrightarrow>
     fst (fetch_transcript w st vid) = FetchFailed (kind_message (classify (exc_text w e)))
   \<and> (extract_video_id url = Some vid \<and> get_cached_analysis st vid = None \<longrightarrow>
        fst (analyze_video w st url) =
          Inl (HTTPException 400 (kind_message (classify (exc_text w e)))))
   \<and> (extract_video_id url = Some vid \<and> get_cached_analysis st vid = None
        \<and> ci_contains (exc_text w e) ''disabled'' \<longrightarrow>
        fst (analyze_video w st url) =
          Inl (HTTPException 400 ''Transcripts are disabled for this video.''))"
  by (simp add: fetch_transcript_def analyze_video_fetch_failed fetch_error_classify classify_def)

theorem transcript_failure_classified_witness:
  "ytt_fetch disabled_world demo_id = Inl (ExternalError ''Subtitles are Disabled for this video'')
   \<and> extract_video_id demo_url = Some demo_id
   \<and> get_cached_analysis st_empty demo_id = None
   \<and> ci_contains ''Subtitles are Disabled for this video'' ''disabled''
   \<and> fst (fetch_transcript disabled_world st_empty demo_id) =
       FetchFailed ''Transcripts are disabled for this video.''
   \<and> fst (analyze_video disabled_world st_empty demo_url) =
       Inl (HTTPException 400 ''Transcripts are disabled for this video.'')"
proof -
  have f: "ytt_fetch disabled_world demo_id =
      Inl (ExternalError ''Subtitles are Disabled for this video'')"
    by (simp add: disabled_world_def)
  have t: "exc_text disabled_world (ExternalError ''Subtitles are Disabled for this video'')
             = ''Subtitles are Disabled for this video''"
    by (simp add: disabled_world_def good_world_def engine_world_def)
  have c: "ci_contains ''Subtitles are Disabled for this video'' ''disabled''"
    by (simp add: ci_contains_lower lower_def lower_char_def)
  have k: "classify ''Subtitles are Disabled for this video'' = TranscriptsDisabled"
    using c by (simp add: classify_def)
  show ?thesis
    using f c demo_extract demo_miss [of demo_id]
      transcript_failure_classified [OF f, of st_empty demo_url]
    by (simp add: t k)
qed

subsection \<open>The analysis step\<close>

lemma api_key_irrelevant:
  "fetch_error (w\<lparr>api_key := k\<rparr>) e = fetch_error w e"
  "build_response (w\<lparr>api_key := k\<rparr>) vid title ts c = build_response w vid title ts c"
  "cached_response (w\<lparr>api_key := k\<rparr>) vid data = cached_response w vid data"
  by (simp_all add: fetch_error_def build_response_def cached_response_def
      cong: if_cong option.case_cong sum.case_cong)

text \<open>
  Claim C7. With no API key in the environment, a request that ends before the analysis
  (no identifier in the URL, a cache hit, a transcript failure) has the result it has
  with any key \<open>k\<close>; a request that reaches the analysis ends with status 500 and the
  message of the missing key, and the engine is not called.
\<close>

theorem missing_api_key:
  "api_key w = None \<Longrightarrow>
     ((extract_video_id url = None
        \<or> (\<exists>vid. extract_video_id url = Some vid
               \<and> (get_cached_analysis st vid \<noteq> None \<or> isl (ytt_fetch w vid)))) \<longrightarrow>
        analyze_video w st url = analyze_video (w\<lparr>api_key := k\<rparr>) st url)
   \<and> (\<forall>vid. extract_video_id url = Some vid \<and> get_cached_analysis st vid = None
          \<and> \<not> isl (ytt_fetch w vid) \<longrightarrow>
        analyze_video w st url =
          (Inl (HTTPException 500 not_configured), st\<lparr>fetch_calls := fetch_calls st + 1\<rparr>)
        \<and> status_of (fst (analyze_video w st url)) = 500)"
proof (intro conjI impI allI)
  assume "extract_video_id url = None
        \<or> (\<exists>vid. extract_video_id url = Some vid
               \<and> (get_cached_analysis st vid \<noteq> None \<or> isl (ytt_fetch w vid)))"
  then show "analyze_video w st url = analyze_video (w\<lparr>api_key := k\<rparr>) st url"
  proof (elim disjE exE conjE)
    assume "extract_video_id url = None"
    then show ?thesis by (simp add: analyze_video_invalid)
  next
    fix vid
    assume "extract_video_id url = Some vid" "get_cached_analysis st vid \<noteq> None"
    then show ?thesis by (auto simp: analyze_video_hit api_key_irrelevant)
  next
    fix vid
    assume x: "extract_video_id url = Some vid" and i: "isl (ytt_fetch w vid)"
    from i obtain e where e: "ytt_fetch w vid = Inl e"
      by (cases "ytt_fetch w vid") auto
    then have e': "ytt_fetch (w\<lparr>api_key := k\<rparr>) vid = Inl e" by simp
    show ?thesis
    proof (cases "get_cached_analysis st vid")
      case None
      with x e e' show ?thesis
        by (simp add: analyze_video_fetch_failed api_key_irrelevant)
    next
      case (Some data)
      with x show ?thesis by (simp add: analyze_video_hit api_key_irrelevant)
    qed
  qed
next
  fix vid
  assume k: "api_key w = None"
    and a: "extract_video_id url = Some vid \<and> get_cached_analysis st vid = None
          \<and> \<not> isl (ytt_fetch w vid)"
  then obtain segs where "ytt_fetch w vid = Inr segs"
    by (cases "ytt_fetch w vid") auto
  with a k show r: "analyze_video w st url =
          (Inl (HTTPException 500 not_configured), st\<lparr>fetch_calls := fetch_calls st + 1\<rparr>)"
    by (simp add: analyze_video_analysis analyze_transcript_def)
  show "status_of (fst (analyze_video w st url)) = 500"
    by (simp add: r status_of_def)
qed

theorem missing_api_key_witness:
  "api_key keyless_world = None
   \<and> extract_video_id ''not a video link'' = None
   \<and> analyze_video keyless_world st_empty ''not a video link'' =
       analyze_video good_world st_empty ''not a video link''
   \<and> extract_video_id demo_url = Some demo_id
   \<and> get_cached_analysis st_empty demo_id = None
   \<and> \<not> isl (ytt_fetch keyless_world demo_id)
   \<and> analyze_video keyless_world st_empty demo_url =
       (Inl (HTTPException 500 not_configured), st_empty\<lparr>fetch_calls := 1\<rparr>)
   \<and> status_of (fst (analyze_video keyless_world st_empty demo_url)) = 500"
proof -
  have k: "api_key keyless_world = None"
    by (simp add: keyless_world_def)
  have g: "keyless_world\<lparr>api_key := Some ''sk-or-demo''\<rparr> = good_world"
    by (simp add: keyless_world_def good_world_def engine_world_def)
  have f: "\<not> isl (ytt_fetch keyless_world demo_id)"
    by (simp add: keyless_world_def good_world_def engine_world_def)
  have z: "fetch_calls st_empty = 0"
    by (simp add: st_empty_def)
  show ?thesis
    using k f no_link_extract demo_extract demo_miss [of demo_id]
      missing_api_key [OF k, of "''not a video link''" st_empty "Some ''sk-or-demo''"]
      missing_api_key [OF k, of demo_url st_empty "Some ''sk-or-demo''"]
    by (simp add: g z status_of_def)
qed

text \<open>
  Claim C10. When the transcript fetch succeeds with no segment, \<open>analyze_transcript\<close>
  returns a failure: the message of the missing key when there is no key, and otherwise
  the \<^verbatim>\<open>IndexError\<close> of reading the first segment, caught by the last \<^verbatim>\<open>except\<close> clause.
  The request ends with \<^verbatim>\<open>HTTPException\<close> 500 carrying that message, not with an
  exception nobody catches, and the engine is not called.
\<close>

theorem empty_transcript_analysis_failure:
  "extract_video_id url = Some vid \<Longrightarrow> get_cached_analysis st vid = None \<Longrightarrow>
   ytt_fetch w vid = Inr [] \<Longrightarrow>
     fetch_transcript w st vid = (FetchOk [] [], st\<lparr>fetch_calls := fetch_calls st + 1\<rparr>)
   \<and> analyze_transcript w (st\<lparr>fetch_calls := fetch_calls st + 1\<rparr>) [] [] =
       (Inl (if api_key w = None \<or> api_key w = Some [] then not_configured
             else ''AI analysis failed: '' @ exc_text w (IndexError ''list'')),
        st\<lparr>fetch_calls := fetch_calls st + 1\<rparr>)
   \<and> analyze_video w st url =
       (Inl (HTTPException 500
              (if api_key w = None \<or> api_key w = Some [] then not_configured
               else ''AI analysis failed: '' @ exc_text w (IndexError ''list''))),
        st\<lparr>fetch_calls := fetch_calls st + 1\<rparr>)
   \<and> status_of (fst (analyze_video w st url)) = 500"
  by (auto simp: analyze_video_analysis analyze_transcript_def build_prompt_def handle_exc_def
      fetch_transcript_def status_of_def split: option.splits)

theorem empty_transcript_analysis_failure_witness:
  "extract_video_id demo_url = Some demo_id
   \<and> get_cached_analysis st_empty demo_id = None
   \<and> ytt_fetch silent_world demo_id = Inr []
   \<and> analyze_transcript silent_world (st_empty\<lparr>fetch_calls := 1\<rparr>) [] [] =
       (Inl ''AI analysis failed: list index out of range'', st_empty\<lparr>fetch_calls := 1\<rparr>)
   \<and> analyze_video silent_world st_empty demo_url =
       (Inl (HTTPException 500 ''AI analysis failed: list index out of range''),
        st_empty\<lparr>fetch_calls := 1\<rparr>)
   \<and> status_of (fst (analyze_video silent_world st_empty demo_url)) = 500"
proof -
  have f: "ytt_fetch silent_world demo_id = Inr []"
    by (simp add: silent_world_def)
  have k: "api_key silent_world = Some ''sk-or-demo''"
    by (simp add: silent_world_def good_world_def engine_world_def)
  have t: "exc_text silent_world (IndexError ''list'') = ''list index out of range''"
    by (simp add: silent_world_def good_world_def engine_world_def)
  have z: "fetch_calls st_empty = 0"
    by (simp add: st_empty_def)
  show ?thesis
    using f demo_extract demo_miss [of demo_id]
      empty_transcript_analysis_failure [OF demo_extract demo_miss f]
    by (simp add: k t z status_of_def)
qed

subsection \<open>The cache store\<close>

lemma list_all_update:
  "list_all P al \<Longrightarrow> P (k, v) \<Longrightarrow> list_all P (AList.update k v al)"
  by (induction al) auto

lemma count_key_update:
  "distinct (map fst al) \<Longrightarrow> length (filter (\<lambda>p. fst p = k) (AList.update k v al)) = 1"
proof (induction al)
  case Nil
  then show ?case by simp
next
  case (Cons p al)
  show ?case
  proof (cases "fst p = k")
    case True
    with Cons.prems have "k \<notin> fst ` set al" by auto
    then have "filter (\<lambda>p. fst p = k) al = []"
      by (auto simp: filter_empty_conv)
    with True show ?thesis by simp
  next
    case False
    with Cons show ?thesis by simp
  qed
qed

lemma count_key_present:
  assumes "distinct (map fst al)" and "map_of al k = Some v"
  shows "length (filter (\<lambda>p. fst p = k) al) = 1"
proof -
  from assms(2) have "AList.update k v al = al" by (simp add: update_triv)
  with count_key_update [OF assms(1), of k v] show ?thesis by simp
qed

lemma record_id_analysis_record: "record_id (analysis_record vid title ts created) = Some vid"
  by (simp add: record_id_def analysis_record_def)

lemma load_cache_save_cache:
  "load_cache (save_cache w st cache) =
     (case file_write w of
        WriteOk \<Rightarrow> cache
      | OpenFails e \<Rightarrow> load_cache st
      | DumpFails e \<Rightarrow> JObject [])"
  by (simp add: load_cache_def save_cache_def split: write_outcome.splits)

lemma save_analysis_object:
  "load_cache st = JObject kvs \<Longrightarrow>
     save_analysis w st vid title ts =
       (SaveOk, save_cache w st
          (JObject (AList.update vid (analysis_record vid title ts (utcnow_isoformat w)) kvs)))"
  by (simp add: save_analysis_def py_setitem_def)

text \<open>
  The \<^verbatim>\<open>except\<close> clause of \<open>save_analysis\<close> is reached when the file holds a JSON value
  that is not an object: the item assignment raises \<^verbatim>\<open>TypeError\<close>.
\<close>

lemma save_analysis_not_object:
  "\<not> is_object (load_cache st) \<Longrightarrow>
     save_analysis w st vid title ts =
       (SaveFailed (''Failed to save to cache: '' @
          exc_text w (TypeError ''setitem'' (type_name (load_cache st)))), st)"
  by (cases "load_cache st") (simp_all add: save_analysis_def py_setitem_def is_object_def)

text \<open>An exception of the write itself never reaches it.\<close>

lemma save_analysis_write_failure:
  "is_object (load_cache st) \<Longrightarrow> fst (save_analysis w st vid title ts) = SaveOk"
  by (cases "load_cache st") (simp_all add: save_analysis_def py_setitem_def is_object_def)

lemma is_objectE: "is_object v \<Longrightarrow> (\<And>kvs. v = JObject kvs \<Longrightarrow> P) \<Longrightarrow> P"
  by (cases v) (simp_all add: is_object_def)

lemma get_after_put:
  "file_write w = WriteOk \<Longrightarrow> is_object (load_cache st) \<Longrightarrow>
     get_cached_analysis (snd (save_analysis w st vid title ts)) vid =
       Some (analysis_record vid title ts (utcnow_isoformat w))"
  by (erule is_objectE)
    (simp add: save_analysis_object get_cached_analysis_def load_cache_save_cache update_conv')

lemma get_after_put_other:
  "k \<noteq> vid \<Longrightarrow> file_write w = WriteOk \<Longrightarrow> is_object (load_cache st) \<Longrightarrow>
     get_cached_analysis (snd (save_analysis w st vid title ts)) k = get_cached_analysis st k"
  by (erule is_objectE)
    (simp add: save_analysis_object get_cached_analysis_def load_cache_save_cache update_conv')

lemma records_under_after_put:
  "store_inv st \<Longrightarrow> file_write w = WriteOk \<Longrightarrow> is_object (load_cache st) \<Longrightarrow>
     records_under (snd (save_analysis w st vid title ts)) vid = 1"
  by (erule is_objectE)
    (simp add: save_analysis_object records_under_def load_cache_save_cache store_inv_def
      count_key_update)

lemma store_inv_present:
  assumes "store_inv st" and "get_cached_analysis st k = Some data"
  shows "records_under st k = 1 \<and> record_id data = Some k"
proof -
  from assms(2) obtain kvs where l: "load_cache st = JObject kvs" and m: "map_of kvs k = Some data"
    by (cases "load_cache st") (simp_all add: get_cached_analysis_def)
  with assms(1) have d: "distinct (map fst kvs)"
    and a: "list_all (\<lambda>(k, v). record_id v = Some k) kvs"
    by (simp_all add: store_inv_def)
  from m have "(k, data) \<in> set kvs" by (rule map_of_SomeD)
  with a have "record_id data = Some k" by (auto simp: list_all_iff)
  with l d m show ?thesis by (simp add: records_under_def count_key_present)
qed

lemma store_inv_cache_file: "cache_file st' = cache_file st \<Longrightarrow> store_inv st' = store_inv st"
  by (simp add: store_inv_def load_cache_def)

lemma store_inv_save_analysis:
  assumes "store_inv st"
  shows "store_inv (snd (save_analysis w st vid title ts))"
proof (cases "is_object (load_cache st)")
  case False
  with assms show ?thesis by (simp add: save_analysis_not_object)
next
  case True
  then obtain kvs where l: "load_cache st = JObject kvs" by (rule is_objectE)
  with assms have d: "distinct (map fst kvs)"
    and a: "list_all (\<lambda>(k, v). record_id v = Some k) kvs"
    by (simp_all add: store_inv_def)
  let ?r = "analysis_record vid title ts (utcnow_isoformat w)"
  have "distinct (map fst (AList.update vid ?r kvs))"
    using d by (rule distinct_update)
  moreover have "list_all (\<lambda>(k, v). record_id v = Some k) (AList.update vid ?r kvs)"
    using a by (rule list_all_update) (simp add: record_id_analysis_record)
  ultimately show ?thesis
    using l assms
    by (simp add: save_analysis_object store_inv_def load_cache_save_cache
        split: write_outcome.splits)
qed

lemma store_inv_analyze_video:
  assumes "store_inv st"
  shows "store_inv (snd (analyze_video w st url))"
proof (cases "extract_video_id url")
  case None
  with assms show ?thesis by (simp add: analyze_video_invalid)
next
  case (Some vid)
  note x = this
  show ?thesis
  proof (cases "get_cached_analysis st vid")
    case (Some data)
    with x assms show ?thesis
      by (simp add: analyze_video_hit)
  next
    case None
    let ?st1 = "st\<lparr>fetch_calls := fetch_calls st + 1\<rparr>"
    have i1: "store_inv ?st1"
      using assms store_inv_cache_file [of ?st1 st] by simp
    show ?thesis
    proof (cases "ytt_fetch w vid")
      case (Inl e)
      with None x i1 show ?thesis
        by (simp add: analyze_video_fetch_failed)
    next
      case (Inr segs)
      note f = this
      obtain r st2
        where a: "analyze_transcript w ?st1 (join '' '' (map seg_text segs)) segs = (r, st2)"
        by (cases "analyze_transcript w ?st1 (join '' '' (map seg_text segs)) segs")
      have "cache_file st2 = cache_file ?st1"
        using cache_file_analyze_transcript [of w ?st1 "join '' '' (map seg_text segs)" segs] a
        by simp
      with i1 have i2: "store_inv st2"
        using store_inv_cache_file [of st2 ?st1] by simp
      show ?thesis
      proof (cases r)
        case (Inl msg)
        with a i2 f None x show ?thesis
          by (simp add: analyze_video_analysis)
      next
        case (Inr ts)
        with a i2 f None x show ?thesis
          by (simp add: analyze_video_analysis store_inv_save_analysis)
      qed
    qed
  qed
qed

lemma st_empty_object: "is_object (load_cache st_empty)"
  by (simp add: is_object_def load_cache_def st_empty_def)

lemma good_world_fields:
  "file_write good_world = WriteOk"
  "utcnow_isoformat good_world = ''2025-01-01T00:00:00''"
  "api_key good_world = Some ''sk-or-demo''"
  "exc_text good_world = demo_text"
  "validate_timestamps good_world = exact_timestamps"
  by (simp_all add: good_world_def engine_world_def)

lemma stored_state_eq:
  "stored_state =
     \<lparr>cache_file = FileJson (JObject [(demo_id,
         analysis_record demo_id (placeholder_title demo_id) good_timestamps
           ''2025-01-01T00:00:00'')]),
      stdout = [], fetch_calls = 1, post_calls = 1\<rparr>"
proof -
  have f: "fetch_transcript good_world st_empty demo_id =
      (FetchOk demo_segments ''Hello world'', st_empty\<lparr>fetch_calls := fetch_calls st_empty + 1\<rparr>)"
    unfolding good_world_def by (rule engine_fetch)
  show ?thesis
    unfolding stored_state_def
    by (simp add: analyze_video_success [OF demo_extract demo_miss f good_analysis])
      (simp add: save_analysis_def save_cache_def py_setitem_def load_cache_def st_empty_def
        good_world_fields)
qed

text \<open>
  Claim C4. When the write of \<open>save_analysis\<close> is carried out (the file can be written and
  what was loaded is an object, which includes a missing or unreadable file), a following
  \<open>get_cached_analysis\<close> for the same identifier finds the record: its \<^verbatim>\<open>video_id\<close>,
  \<^verbatim>\<open>video_title\<close> and \<^verbatim>\<open>timestamps\<close> are the identifier, the title and the highlight list
  that were given, in the order given, and \<^verbatim>\<open>created_at\<close> is the time of the write.
\<close>

theorem put_then_get:
  "file_write w = WriteOk \<Longrightarrow> is_object (load_cache st) \<Longrightarrow>
     get_cached_analysis (snd (save_analysis w st vid title ts)) vid =
       Some (JObject [(''video_id'', JString vid), (''video_title'', JString title),
                      (''timestamps'', ts), (''created_at'', JString (utcnow_isoformat w))])"
  using get_after_put [of w st vid title ts] by (simp add: analysis_record_def)

theorem put_then_get_witness:
  "file_write good_world = WriteOk \<and> is_object (load_cache st_empty)
   \<and> get_cached_analysis
       (snd (save_analysis good_world st_empty demo_id ''A title'' good_timestamps)) demo_id =
       Some (JObject [(''video_id'', JString demo_id), (''video_title'', JString ''A title''),
                      (''timestamps'', good_timestamps),
                      (''created_at'', JString ''2025-01-01T00:00:00'')])"
  using put_then_get [OF good_world_fields(1) st_empty_object, of demo_id "''A title''"
      good_timestamps]
  by (simp add: good_world_fields st_empty_object)

text \<open>
  Claim C9. The invariant of the store (pairwise different keys, every record carrying its
  key as \<^verbatim>\<open>video_id\<close>) is kept by \<open>save_analysis\<close>, whatever the write does, and by a whole
  request; \<open>get_cached_analysis\<close> does not change the state. Under the invariant a key that is
  found has exactly one record, whose identifier is the key. A write that is carried out
  leaves exactly one record under the key, the new one, whatever was stored there before,
  and leaves every other key as it was.
\<close>

theorem store_invariant_preserved:
  "store_inv st \<Longrightarrow>
     store_inv (snd (save_analysis w st vid title ts))
   \<and> store_inv (snd (analyze_video w st url))
   \<and> (\<forall>k data. get_cached_analysis st k = Some data \<longrightarrow>
         records_under st k = 1 \<and> record_id data = Some k)
   \<and> (file_write w = WriteOk \<and> is_object (load_cache st) \<longrightarrow>
         records_under (snd (save_analysis w st vid title ts)) vid = 1
       \<and> get_cached_analysis (snd (save_analysis w st vid title ts)) vid =
           Some (analysis_record vid title ts (utcnow_isoformat w))
       \<and> (\<forall>k. k \<noteq> vid \<longrightarrow>
             get_cached_analysis (snd (save_analysis w st vid title ts)) k =
             get_cached_analysis st k))"
  by (simp add: store_inv_save_analysis store_inv_analyze_video store_inv_present
      records_under_after_put get_after_put get_after_put_other)

theorem store_invariant_preserved_witness:
  "store_inv stored_state
   \<and> get_cached_analysis stored_state demo_id =
       Some (analysis_record demo_id (placeholder_title demo_id) good_timestamps
              ''2025-01-01T00:00:00'')
   \<and> file_write good_world = WriteOk \<and> is_object (load_cache stored_state)
   \<and> store_inv (snd (save_analysis good_world stored_state demo_id ''New title'' (JArray [])))
   \<and> store_inv (snd (analyze_video good_world stored_state demo_url))
   \<and> records_under stored_state demo_id = 1
   \<and> records_under
       (snd (save_analysis good_world stored_state demo_id ''New title'' (JArray []))) demo_id = 1
   \<and> get_cached_analysis
       (snd (save_analysis good_world stored_state demo_id ''New title'' (JArray []))) demo_id =
       Some (analysis_record demo_id ''New title'' (JArray []) ''2025-01-01T00:00:00'')"
proof -
  have i: "store_inv stored_state"
    by (simp add: stored_state_eq store_inv_def load_cache_def record_id_analysis_record)
  have g: "get_cached_analysis stored_state demo_id =
       Some (analysis_record demo_id (placeholder_title demo_id) good_timestamps
              ''2025-01-01T00:00:00'')"
    by (simp add: stored_state_eq get_cached_analysis_def load_cache_def)
  have o: "is_object (load_cache stored_state)"
    by (simp add: stored_state_eq is_object_def load_cache_def)
  show ?thesis
    using i g o good_world_fields(1)
      store_invariant_preserved [OF i, of good_world demo_id "''New title''" "JArray []" demo_url]
    by (simp add: good_world_fields)
qed

text \<open>
  Claim C3. The cache file cannot be opened for writing: \<open>save_analysis\<close> answers
  \<^verbatim>\<open>{"success": True}\<close>, the failure is only printed, and the record is not in the store.
\<close>

theorem failed_write_reported_as_success:
  "save_analysis readonly_world st_empty demo_id (placeholder_title demo_id) good_timestamps =
     (SaveOk,
      st_empty\<lparr>stdout := [''Failed to save cache: [Errno 13] Permission denied: cache.json'']\<rparr>)
   \<and> get_cached_analysis
       (snd (save_analysis readonly_world st_empty demo_id (placeholder_title demo_id)
               good_timestamps)) demo_id = None"
  by (simp add: save_analysis_def save_cache_def py_setitem_def load_cache_def st_empty_def
      readonly_world_def good_world_def engine_world_def permission_denied_def
      get_cached_analysis_def)

subsection \<open>The response and the write\<close>

lemma handle_exc_file_write: "handle_exc (w\<lparr>file_write := wo\<rparr>) e = handle_exc w e"
  by (cases e) (simp_all add: handle_exc_def)

lemma loads_file_write: "loads (w\<lparr>file_write := wo\<rparr>) doc = loads w doc"
  by (simp add: loads_def)

lemma fstr_file_write: "fstr (w\<lparr>file_write := wo\<rparr>) v = fstr w v"
  by (cases v) (simp_all add: fstr_def)

lemma api_error_file_write: "api_error (w\<lparr>file_write := wo\<rparr>) resp = api_error w resp"
  by (simp add: api_error_def response_json_def loads_file_write fstr_file_write)

lemma response_content_file_write:
  "response_content (w\<lparr>file_write := wo\<rparr>) resp = response_content w resp"
  by (simp add: response_content_def response_json_def loads_file_write)

lemma parse_timestamps_file_write:
  "parse_timestamps (w\<lparr>file_write := wo\<rparr>) = parse_timestamps w"
  by (rule ext) (simp add: parse_timestamps_def loads_file_write)

lemma after_response_file_write:
  "after_response (w\<lparr>file_write := wo\<rparr>) resp = after_response w resp"
  by (simp add: after_response_def api_error_file_write response_content_file_write
      parse_timestamps_file_write handle_exc_file_write cong: sum.case_cong if_cong)

lemma analyze_transcript_file_write:
  "analyze_transcript (w\<lparr>file_write := wo\<rparr>) st t segs = analyze_transcript w st t segs"
  by (simp add: analyze_transcript_def after_response_file_write handle_exc_file_write
      cong: option.case_cong if_cong sum.case_cong)

lemma fetch_transcript_file_write:
  "fetch_transcript (w\<lparr>file_write := wo\<rparr>) st vid = fetch_transcript w st vid"
  by (simp add: fetch_transcript_def fetch_error_def cong: sum.case_cong if_cong)

lemma build_response_file_write:
  "build_response (w\<lparr>file_write := wo\<rparr>) vid title ts c = build_response w vid title ts c"
  by (simp add: build_response_def cong: option.case_cong)

lemma cached_response_file_write:
  "cached_response (w\<lparr>file_write := wo\<rparr>) vid data = cached_response w vid data"
  by (simp add: cached_response_def build_response_file_write cong: sum.case_cong)

text \<open>The response of a request does not depend on how the write of the cache file ends.\<close>

lemma response_independent_of_write:
  "fst (analyze_video (w\<lparr>file_write := wo\<rparr>) st url) = fst (analyze_video w st url)"
  by (simp add: analyze_video_def fetch_transcript_file_write analyze_transcript_file_write
      build_response_file_write cached_response_file_write Let_def
      split: option.splits prod.splits sum.splits fetch_result.splits)

text \<open>
  Claim C1, as stated, fails: in \<open>bad_world\<close> the identifier is extracted, the transcript is
  fetched and \<open>analyze_transcript\<close> succeeds with the list the engine sent, whose one
  highlight has no \<^verbatim>\<open>reason\<close>; the response model rejects the list and the request ends
  with the exception, not with a success response.
\<close>

theorem analysis_success_without_response:
  "extract_video_id demo_url = Some demo_id
   \<and> get_cached_analysis st_empty demo_id = None
   \<and> fetch_transcript bad_world st_empty demo_id =
       (FetchOk demo_segments ''Hello world'', st_empty\<lparr>fetch_calls := 1\<rparr>)
   \<and> analyze_transcript bad_world (st_empty\<lparr>fetch_calls := 1\<rparr>) ''Hello world'' demo_segments =
       (Inr bad_timestamps, st_empty\<lparr>fetch_calls := 1, post_calls := 1\<rparr>)
   \<and> fst (analyze_video bad_world st_empty demo_url) = Inl InternalServerError"
proof -
  have z: "fetch_calls st_empty = 0" "post_calls st_empty = 0"
    by (simp_all add: st_empty_def)
  have f: "fetch_transcript bad_world st_empty demo_id =
      (FetchOk demo_segments ''Hello world'', st_empty\<lparr>fetch_calls := fetch_calls st_empty + 1\<rparr>)"
    unfolding bad_world_def by (rule engine_fetch)
  have v: "validate_timestamps bad_world bad_timestamps = None"
    by (simp add: bad_world_def engine_world_def bad_validation)
  have "fst (analyze_video bad_world st_empty demo_url) = Inl InternalServerError"
    by (simp add: analyze_video_success [OF demo_extract demo_miss f bad_analysis]
        build_response_def validate_title_def v)
  with f show ?thesis
    using demo_extract demo_miss [of demo_id]
      bad_analysis [of "st_empty\<lparr>fetch_calls := 1\<rparr>"]
    by (simp add: z)
qed

text \<open>
  Claim C1, amended. When the identifier is extracted, the cache misses, the transcript is
  fetched, the analysis succeeds and the response model accepts the highlight list, the
  response is the success response with the identifier, the placeholder title, the
  validated highlights and \<^verbatim>\<open>cached = False\<close>, however the write of the cache file ends
  (\<open>wo\<close>); and for every request the response is the same under every outcome of the write.
\<close>

theorem persistence_failure_keeps_response:
  "extract_video_id url = Some vid \<Longrightarrow> get_cached_analysis st vid = None \<Longrightarrow>
   fetch_transcript w st vid = (FetchOk segs ftext, st1) \<Longrightarrow>
   analyze_transcript w st1 ftext segs = (Inr ts, st2) \<Longrightarrow>
   validate_timestamps w ts = Some items \<Longrightarrow>
     fst (analyze_video (w\<lparr>file_write := wo\<rparr>) st url) =
       Inr \<lparr>success = True, video_id = Some vid, video_title = Some (placeholder_title vid),
            timestamps = items, cached = False, error = None\<rparr>
   \<and> fst (analyze_video (w\<lparr>file_write := wo\<rparr>) st' url') = fst (analyze_video w st' url')"
  by (simp add: response_independent_of_write analyze_video_success build_response_def
      validate_title_def)

theorem persistence_failure_keeps_response_witness:
  "extract_video_id demo_url = Some demo_id
   \<and> get_cached_analysis st_empty demo_id = None
   \<and> fetch_transcript good_world st_empty demo_id =
       (FetchOk demo_segments ''Hello world'', st_empty\<lparr>fetch_calls := 1\<rparr>)
   \<and> analyze_transcript good_world (st_empty\<lparr>fetch_calls := 1\<rparr>) ''Hello world'' demo_segments =
       (Inr good_timestamps, st_empty\<lparr>fetch_calls := 1, post_calls := 1\<rparr>)
   \<and> validate_timestamps good_world good_timestamps = Some good_items
   \<and> fst (analyze_video readonly_world st_empty demo_url) =
       Inr \<lparr>success = True, video_id = Some demo_id,
            video_title = Some ''YouTube Video (dQw4w9WgXcQ)'',
            timestamps = good_items, cached = False, error = None\<rparr>
   \<and> get_cached_analysis (snd (analyze_video readonly_world st_empty demo_url)) demo_id = None"
proof -
  have z: "fetch_calls st_empty = 0" "post_calls st_empty = 0"
    by (simp_all add: st_empty_def)
  have f: "fetch_transcript good_world st_empty demo_id =
      (FetchOk demo_segments ''Hello world'', st_empty\<lparr>fetch_calls := 1\<rparr>)"
    unfolding good_world_def by (simp add: engine_fetch z)
  have a: "analyze_transcript good_world (st_empty\<lparr>fetch_calls := 1\<rparr>) ''Hello world''
             demo_segments = (Inr good_timestamps, st_empty\<lparr>fetch_calls := 1, post_calls := 1\<rparr>)"
    using good_analysis [of "st_empty\<lparr>fetch_calls := 1\<rparr>"] by (simp add: z)
  have f': "fetch_transcript readonly_world st_empty demo_id =
      (FetchOk demo_segments ''Hello world'', st_empty\<lparr>fetch_calls := 1\<rparr>)"
    unfolding readonly_world_def using f by (simp add: fetch_transcript_file_write)
  have a': "analyze_transcript readonly_world (st_empty\<lparr>fetch_calls := 1\<rparr>) ''Hello world''
             demo_segments = (Inr good_timestamps, st_empty\<lparr>fetch_calls := 1, post_calls := 1\<rparr>)"
    unfolding readonly_world_def using a by (simp add: analyze_transcript_file_write)
  have s: "get_cached_analysis (snd (analyze_video readonly_world st_empty demo_url)) demo_id = None"
    by (simp add: analyze_video_success [OF demo_extract demo_miss f' a'])
      (simp add: save_analysis_def save_cache_def py_setitem_def load_cache_def st_empty_def
        readonly_world_def good_world_def engine_world_def get_cached_analysis_def)
  have t: "placeholder_title demo_id = ''YouTube Video (dQw4w9WgXcQ)''"
    by (simp add: placeholder_title_def demo_id_def)
  show ?thesis
    using f a s good_validation demo_extract demo_miss [of demo_id]
      persistence_failure_keeps_response [OF demo_extract demo_miss f a good_validation,
        of "OpenFails permission_denied" st_empty demo_url]
    by (simp add: readonly_world_def t)
qed

subsection \<open>Cache hits\<close>





text \<open>
  After a request that missed, analysed and wrote its record, the next request for the
  same identifier is a hit with the same title and highlights; the engine has been called
  once by the two requests.
\<close>

lemma miss_then_hit:
  assumes "extract_video_id url = Some vid" and "get_cached_analysis st vid = None"
    and "fetch_transcript w1 st vid = (FetchOk segs ftext, st1)"
    and "analyze_transcript w1 st1 ftext segs = (Inr ts, st2)"
    and "file_write w1 = WriteOk" and "is_object (load_cache st)"
    and "validate_timestamps w2 ts = Some items"
  shows "analyze_video w2 (snd (analyze_video w1 st url)) url =
           (Inr \<lparr>success = True, video_id = Some vid, video_title = Some (placeholder_title vid),
                 timestamps = items, cached = True, error = None\<rparr>,
            snd (analyze_video w1 st url))"
proof -
  let ?st3 = "snd (save_analysis w1 st2 vid (placeholder_title vid) ts)"
  have s: "snd (analyze_video w1 st url) = ?st3"
    using assms by (simp add: analyze_video_success)
  have "cache_file st1 = cache_file st"
    using assms(3) by (auto simp: fetch_transcript_def Let_def split: sum.splits)
  moreover have "cache_file st2 = cache_file st1"
    using cache_file_analyze_transcript [of w1 st1 ftext segs] assms(4) by simp
  ultimately have "load_cache st2 = load_cache st"
    by (simp add: load_cache_def)
  with assms(6) have "is_object (load_cache st2)" by simp
  from get_after_put [OF assms(5) this, of vid "placeholder_title vid" ts]
  have g: "get_cached_analysis ?st3 vid =
      Some (analysis_record vid (placeholder_title vid) ts (utcnow_isoformat w1))" .
  show ?thesis
    unfolding s
    using assms(7)
    by (simp add: analyze_video_hit [OF assms(1) g] cached_response_def py_get_def
        build_response_def validate_title_def analysis_record_def)
qed

lemma miss_then_hit_engine_once:
  assumes "extract_video_id url = Some vid" and "get_cached_analysis st vid = None"
    and "fetch_transcript w1 st vid = (FetchOk segs ftext, st1)"
    and "analyze_transcript w1 st1 ftext segs = (Inr ts, st2)"
    and "file_write w1 = WriteOk" and "is_object (load_cache st)"
    and "validate_timestamps w2 ts = Some items"
  shows "post_calls (snd (analyze_video w2 (snd (analyze_video w1 st url)) url)) \<le> post_calls st + 1"
proof -
  have "post_calls st1 = post_calls st"
    using assms(3) by (auto simp: fetch_transcript_def Let_def split: sum.splits)
  moreover have "post_calls st2 \<le> post_calls st1 + 1"
    using assms(4)
    by (auto simp: analyze_transcript_def Let_def split: option.splits sum.splits if_splits)
  moreover have "post_calls (snd (save_analysis w1 st2 vid (placeholder_title vid) ts)) =
      post_calls st2"
    by (simp add: save_analysis_def save_cache_def split: sum.splits write_outcome.splits)
  moreover have "snd (analyze_video w1 st url) =
      snd (save_analysis w1 st2 vid (placeholder_title vid) ts)"
    using assms by (simp add: analyze_video_success)
  moreover have "snd (analyze_video w2 (snd (analyze_video w1 st url)) url) =
      snd (analyze_video w1 st url)"
    using miss_then_hit [OF assms] by simp
  ultimately show ?thesis
    by simp
qed

subsection \<open>Replies of the engine\<close>

lemma engine_world_fields:
  "api_key (engine_world content parsed) = Some ''sk-or-demo''"
  "ytt_fetch (engine_world content parsed) vid = Inr demo_segments"
  "requests_post (engine_world content parsed) key p =
     Inr \<lparr>status_code = 200, body = engine_body content\<rparr>"
  "exc_text (engine_world content parsed) = demo_text"
  "validate_timestamps (engine_world content parsed) = exact_timestamps"
  "file_write (engine_world content parsed) = WriteOk"
  "utcnow_isoformat (engine_world content parsed) = ''2025-01-01T00:00:00''"
  by (simp_all add: engine_world_def)

lemma engine_loads: "json_loads (engine_world content parsed) content = parsed"
  by (simp add: engine_world_def demo_loads_def)

text \<open>
  Claim C6, as stated, fails: in \<open>moments_world\<close> the engine answers with the object
  \<^verbatim>\<open>{"moments": []}\<close>, which is not a structured highlight list. The analysis succeeds
  with the default of \<^verbatim>\<open>parsed.get("timestamps", [])\<close>, the request answers 200 with an
  empty list of highlights, and the empty list is stored.
\<close>

theorem malformed_reply_gives_empty_list:
  "json_loads moments_world (remove_code_fence (strip moments_content)) =
     Decoded (JObject [(''moments'', JArray [])])
   \<and> \<not> is_highlight_list (JObject [(''moments'', JArray [])])
   \<and> analyze_transcript moments_world (st_empty\<lparr>fetch_calls := 1\<rparr>) ''Hello world''
        demo_segments = (Inr (JArray []), st_empty\<lparr>fetch_calls := 1, post_calls := 1\<rparr>)
   \<and> fst (analyze_video moments_world st_empty demo_url) =
       Inr \<lparr>success = True, video_id = Some demo_id,
            video_title = Some ''YouTube Video (dQw4w9WgXcQ)'',
            timestamps = [], cached = False, error = None\<rparr>
   \<and> status_of (fst (analyze_video moments_world st_empty demo_url)) = 200
   \<and> get_cached_analysis (snd (analyze_video moments_world st_empty demo_url)) demo_id =
       Some (analysis_record demo_id ''YouTube Video (dQw4w9WgXcQ)'' (JArray [])
              ''2025-01-01T00:00:00'')"
proof -
  have z: "fetch_calls st_empty = 0" "post_calls st_empty = 0"
    by (simp_all add: st_empty_def)
  have l: "json_loads moments_world (remove_code_fence (strip moments_content)) =
     Decoded (JObject [(''moments'', JArray [])])"
    by (simp add: moments_world_def demo_contents_clean engine_loads)
  have h: "\<not> is_highlight_list (JObject [(''moments'', JArray [])])"
    by (simp add: is_highlight_list_def)
  have f: "fetch_transcript moments_world st_empty demo_id =
      (FetchOk demo_segments ''Hello world'', st_empty\<lparr>fetch_calls := fetch_calls st_empty + 1\<rparr>)"
    unfolding moments_world_def by (rule engine_fetch)
  have a: "analyze_transcript moments_world st ''Hello world'' demo_segments =
      (Inr (JArray []), st\<lparr>post_calls := post_calls st + 1\<rparr>)" for st
    unfolding moments_world_def
    by (simp add: engine_analysis demo_contents_clean py_get_def)
  have t: "placeholder_title demo_id = ''YouTube Video (dQw4w9WgXcQ)''"
    by (simp add: placeholder_title_def demo_id_def)
  have v: "analyze_video moments_world st_empty demo_url =
      (build_response moments_world demo_id (JString (placeholder_title demo_id)) (JArray []) False,
       snd (save_analysis moments_world
              (st_empty\<lparr>fetch_calls := fetch_calls st_empty + 1,
                        post_calls := post_calls st_empty + 1\<rparr>)
              demo_id (placeholder_title demo_id) (JArray [])))"
    using analyze_video_success [OF demo_extract demo_miss f a] by simp
  have r: "build_response moments_world demo_id (JString (placeholder_title demo_id)) (JArray [])
             False =
       Inr \<lparr>success = True, video_id = Some demo_id,
            video_title = Some ''YouTube Video (dQw4w9WgXcQ)'',
            timestamps = [], cached = False, error = None\<rparr>"
    by (simp add: build_response_def validate_title_def moments_world_def engine_world_fields
        exact_timestamps_def t)
  have g: "get_cached_analysis (snd (analyze_video moments_world st_empty demo_url)) demo_id =
       Some (analysis_record demo_id ''YouTube Video (dQw4w9WgXcQ)'' (JArray [])
              ''2025-01-01T00:00:00'')"
    unfolding v
    by (simp add: save_analysis_def save_cache_def py_setitem_def load_cache_def st_empty_def
        moments_world_def engine_world_fields get_cached_analysis_def t)
  show ?thesis
    using l h a [of "st_empty\<lparr>fetch_calls := 1\<rparr>"] g
    by (simp add: v r z status_of_def)
qed

text \<open>What a request does once the engine has answered with status 200 and a content.\<close>

lemma analyze_video_reply:
  assumes "extract_video_id url = Some vid" and "get_cached_analysis st vid = None"
    and "ytt_fetch w vid = Inr segs" and "api_key w = Some key" and "key \<noteq> []"
    and "build_prompt (join '' '' (map seg_text segs)) segs = Inr p"
    and "requests_post w key p = Inr resp" and "status_code resp = 200"
    and "response_content w resp = Inr content"
  shows "analyze_video w st url =
     (case bind_exc (loads w (remove_code_fence content))
             (\<lambda>parsed. py_get parsed ''timestamps'' (JArray [])) of
        Inl e \<Rightarrow>
          (Inl (HTTPException 500 (handle_exc w e)),
           st\<lparr>fetch_calls := fetch_calls st + 1, post_calls := post_calls st + 1\<rparr>)
      | Inr ts \<Rightarrow>
          (build_response w vid (JString (placeholder_title vid)) ts False,
           snd (save_analysis w
                  (st\<lparr>fetch_calls := fetch_calls st + 1, post_calls := post_calls st + 1\<rparr>)
                  vid (placeholder_title vid) ts)))"
  using assms(1-3)
  by (simp add: analyze_video_analysis analyze_transcript_reply [OF assms(4-9)] bind_exc_def
      split: sum.splits)

text \<open>
  Claim C6, amended. When the engine answers with status 200 and a message content, what
  follows depends on how \<^verbatim>\<open>json.loads\<close> ends on the content (stripped, and with one code
  fence removed). If it raises \<^verbatim>\<open>JSONDecodeError\<close>, the request ends with
  \<^verbatim>\<open>HTTPException\<close> 500 and the message \<^verbatim>\<open>Failed to parse AI response\<close>. If it raises
  another exception, or returns a value that is not an object, the request ends with
  \<^verbatim>\<open>HTTPException\<close> 500 and the message \<^verbatim>\<open>AI analysis failed\<close>. In these three cases
  nothing is written to the cache and no highlight list, empty or not, is returned. If it
  returns an object without \<^verbatim>\<open>timestamps\<close>, the request goes on with the empty list: it
  hands the empty list to the cache and, the response model accepting the empty list,
  answers with success and no highlight.
\<close>

theorem undecodable_reply_reported:
  "extract_video_id url = Some vid \<Longrightarrow> get_cached_analysis st vid = None \<Longrightarrow>
   ytt_fetch w vid = Inr segs \<Longrightarrow> api_key w = Some key \<Longrightarrow> key \<noteq> [] \<Longrightarrow>
   build_prompt (join '' '' (map seg_text segs)) segs = Inr p \<Longrightarrow>
   requests_post w key p = Inr resp \<Longrightarrow> status_code resp = 200 \<Longrightarrow>
   response_content w resp = Inr content \<Longrightarrow>
     (json_loads w (remove_code_fence content) = Malformed \<longrightarrow>
        analyze_video w st url =
          (Inl (HTTPException 500 (''Failed to parse AI response: '' @
                  exc_text w (JSONDecodeError (remove_code_fence content)))),
           st\<lparr>fetch_calls := fetch_calls st + 1, post_calls := post_calls st + 1\<rparr>))
   \<and> (\<forall>message. json_loads w (remove_code_fence content) = DecoderRaises message \<longrightarrow>
        analyze_video w st url =
          (Inl (HTTPException 500 (''AI analysis failed: '' @
                  exc_text w (ExternalError message))),
           st\<lparr>fetch_calls := fetch_calls st + 1, post_calls := post_calls st + 1\<rparr>))
   \<and> (\<forall>doc. json_loads w (remove_code_fence content) = Decoded doc \<and> \<not> is_object doc \<longrightarrow>
        analyze_video w st url =
          (Inl (HTTPException 500 (''AI analysis failed: '' @
                  exc_text w (AttributeError (type_name doc) ''get''))),
           st\<lparr>fetch_calls := fetch_calls st + 1, post_calls := post_calls st + 1\<rparr>))
   \<and> (\<forall>kvs. json_loads w (remove_code_fence content) = Decoded (JObject kvs)
          \<and> map_of kvs ''timestamps'' = None \<and> validate_timestamps w (JArray []) = Some [] \<longrightarrow>
        analyze_video w st url =
          (Inr \<lparr>success = True, video_id = Some vid,
                video_title = Some (placeholder_title vid), timestamps = [],
                cached = False, error = None\<rparr>,
           snd (save_analysis w
                  (st\<lparr>fetch_calls := fetch_calls st + 1, post_calls := post_calls st + 1\<rparr>)
                  vid (placeholder_title vid) (JArray []))))"
proof (intro conjI impI allI)
  assume a: "extract_video_id url = Some vid" "get_cached_analysis st vid = None"
    "ytt_fetch w vid = Inr segs" "api_key w = Some key" "key \<noteq> []"
    "build_prompt (join '' '' (map seg_text segs)) segs = Inr p"
    "requests_post w key p = Inr resp" "status_code resp = 200"
    "response_content w resp = Inr content"
  note r = analyze_video_reply [OF a]
  {
    assume "json_loads w (remove_code_fence content) = Malformed"
    then show "analyze_video w st url =
          (Inl (HTTPException 500 (''Failed to parse AI response: '' @
                  exc_text w (JSONDecodeError (remove_code_fence content)))),
           st\<lparr>fetch_calls := fetch_calls st + 1, post_calls := post_calls st + 1\<rparr>)"
      by (simp add: r loads_def decoded_def bind_exc_def handle_exc_def)
  }
  {
    fix message
    assume "json_loads w (remove_code_fence content) = DecoderRaises message"
    then show "analyze_video w st url =
          (Inl (HTTPException 500 (''AI analysis failed: '' @
                  exc_text w (ExternalError message))),
           st\<lparr>fetch_calls := fetch_calls st + 1, post_calls := post_calls st + 1\<rparr>)"
      by (simp add: r loads_def decoded_def bind_exc_def handle_exc_def)
  }
  {
    fix doc
    assume "json_loads w (remove_code_fence content) = Decoded doc \<and> \<not> is_object doc"
    then show "analyze_video w st url =
          (Inl (HTTPException 500 (''AI analysis failed: '' @
                  exc_text w (AttributeError (type_name doc) ''get''))),
           st\<lparr>fetch_calls := fetch_calls st + 1, post_calls := post_calls st + 1\<rparr>)"
      by (cases doc)
        (simp_all add: r loads_def decoded_def bind_exc_def handle_exc_def py_get_def
          is_object_def)
  }
  {
    fix kvs
    assume "json_loads w (remove_code_fence content) = Decoded (JObject kvs)
          \<and> map_of kvs ''timestamps'' = None \<and> validate_timestamps w (JArray []) = Some []"
    then show "analyze_video w st url =
          (Inr \<lparr>success = True, video_id = Some vid,
                video_title = Some (placeholder_title vid), timestamps = [],
                cached = False, error = None\<rparr>,
           snd (save_analysis w
                  (st\<lparr>fetch_calls := fetch_calls st + 1, post_calls := post_calls st + 1\<rparr>)
                  vid (placeholder_title vid) (JArray [])))"
      by (simp add: r loads_def decoded_def bind_exc_def py_get_def build_response_def
          validate_title_def)
  }
qed

lemma engine_reply_facts:
  assumes "remove_code_fence (strip content) = content"
  shows "ytt_fetch (engine_world content parsed) demo_id = Inr demo_segments"
    and "api_key (engine_world content parsed) = Some ''sk-or-demo''"
    and "requests_post (engine_world content parsed) ''sk-or-demo'' (Prompt ''Hello world'' 2 0 1) =
           Inr \<lparr>status_code = 200, body = engine_body content\<rparr>"
    and "response_content (engine_world content parsed)
           \<lparr>status_code = 200, body = engine_body content\<rparr> = Inr (strip content)"
    and "json_loads (engine_world content parsed) (remove_code_fence (strip content)) = parsed"
  using assms by (simp_all add: engine_world_fields engine_content engine_loads)

theorem undecodable_reply_reported_witness:
  "extract_video_id demo_url = Some demo_id
   \<and> get_cached_analysis st_empty demo_id = None
   \<and> ytt_fetch prose_world demo_id = Inr demo_segments
   \<and> api_key prose_world = Some ''sk-or-demo''
   \<and> build_prompt (join '' '' (map seg_text demo_segments)) demo_segments =
       Inr (Prompt ''Hello world'' 2 0 1)
   \<and> requests_post prose_world ''sk-or-demo'' (Prompt ''Hello world'' 2 0 1) =
       Inr \<lparr>status_code = 200, body = engine_body prose_content\<rparr>
   \<and> response_content prose_world \<lparr>status_code = 200, body = engine_body prose_content\<rparr> =
       Inr (strip prose_content)
   \<and> json_loads prose_world (remove_code_fence (strip prose_content)) = Malformed
   \<and> analyze_video prose_world st_empty demo_url =
       (Inl (HTTPException 500
              ''Failed to parse AI response: Expecting value: line 1 column 1 (char 0)''),
        st_empty\<lparr>fetch_calls := 1, post_calls := 1\<rparr>)
   \<and> json_loads digits_world (remove_code_fence (strip digits_content)) =
       DecoderRaises digits_error
   \<and> analyze_video digits_world st_empty demo_url =
       (Inl (HTTPException 500 (''AI analysis failed: '' @ digits_error)),
        st_empty\<lparr>fetch_calls := 1, post_calls := 1\<rparr>)
   \<and> json_loads list_world (remove_code_fence (strip list_content)) = Decoded good_timestamps
   \<and> \<not> is_object good_timestamps
   \<and> analyze_video list_world st_empty demo_url =
       (Inl (HTTPException 500
              (''AI analysis failed: '' @ demo_text (AttributeError ''list'' ''get''))),
        st_empty\<lparr>fetch_calls := 1, post_calls := 1\<rparr>)
   \<and> json_loads moments_world (remove_code_fence (strip moments_content)) =
       Decoded (JObject [(''moments'', JArray [])])
   \<and> map_of [(''moments'', JArray [])] ''timestamps'' = None
   \<and> validate_timestamps moments_world (JArray []) = Some []
   \<and> fst (analyze_video moments_world st_empty demo_url) =
       Inr \<lparr>success = True, video_id = Some demo_id,
            video_title = Some (placeholder_title demo_id), timestamps = [],
            cached = False, error = None\<rparr>"
proof -
  have z: "fetch_calls st_empty = 0" "post_calls st_empty = 0"
    by (simp_all add: st_empty_def)
  have k: "''sk-or-demo'' \<noteq> ([] :: string)"
    by simp
  have p: "build_prompt (join '' '' (map seg_text demo_segments)) demo_segments =
       Inr (Prompt ''Hello world'' 2 0 1)"
    by (simp add: demo_join demo_prompt)
  have s200: "status_code \<lparr>status_code = 200, body = b\<rparr> = 200" for b :: string
    by simp
  note f1 = engine_reply_facts [OF demo_contents_clean(4), of Malformed, folded prose_world_def]
  note f2 = engine_reply_facts [OF digits_content_clean, of "DecoderRaises digits_error",
      folded digits_world_def]
  note f3 = engine_reply_facts [OF demo_contents_clean(5), of "Decoded good_timestamps",
      folded list_world_def]
  note f4 = engine_reply_facts [OF demo_contents_clean(3),
      of "Decoded (JObject [(''moments'', JArray [])])", folded moments_world_def]
  note w1 = undecodable_reply_reported
    [OF demo_extract demo_miss f1(1) f1(2) k p f1(3) s200 f1(4)]
  note w2 = undecodable_reply_reported
    [OF demo_extract demo_miss f2(1) f2(2) k p f2(3) s200 f2(4)]
  note w3 = undecodable_reply_reported
    [OF demo_extract demo_miss f3(1) f3(2) k p f3(3) s200 f3(4)]
  note w4 = undecodable_reply_reported
    [OF demo_extract demo_miss f4(1) f4(2) k p f4(3) s200 f4(4)]
  have t: "exc_text prose_world = demo_text" "exc_text digits_world = demo_text"
    "exc_text list_world = demo_text"
    by (simp_all add: prose_world_def digits_world_def list_world_def engine_world_fields)
  have c: "remove_code_fence (strip prose_content) = prose_content"
    by (rule demo_contents_clean)
  have a1: "analyze_video prose_world st_empty demo_url =
       (Inl (HTTPException 500
              ''Failed to parse AI response: Expecting value: line 1 column 1 (char 0)''),
        st_empty\<lparr>fetch_calls := 1, post_calls := 1\<rparr>)"
    using w1 f1(5) by (simp add: t z)
  have a2: "analyze_video digits_world st_empty demo_url =
       (Inl (HTTPException 500 (''AI analysis failed: '' @ digits_error)),
        st_empty\<lparr>fetch_calls := 1, post_calls := 1\<rparr>)"
    using w2 f2(5) by (simp add: t z)
  have o: "\<not> is_object good_timestamps"
    by (simp add: is_object_def good_timestamps_def)
  have n: "type_name good_timestamps = ''list''"
    by (simp add: good_timestamps_def)
  have a3: "analyze_video list_world st_empty demo_url =
       (Inl (HTTPException 500
              (''AI analysis failed: '' @ demo_text (AttributeError ''list'' ''get''))),
        st_empty\<lparr>fetch_calls := 1, post_calls := 1\<rparr>)"
    using w3 f3(5) o by (simp add: t z n)
  have m: "map_of [(''moments'', JArray [])] ''timestamps'' = None"
    by simp
  have v: "validate_timestamps moments_world (JArray []) = Some []"
    by (simp add: moments_world_def engine_world_fields exact_timestamps_def)
  have a4: "fst (analyze_video moments_world st_empty demo_url) =
       Inr \<lparr>success = True, video_id = Some demo_id,
            video_title = Some (placeholder_title demo_id), timestamps = [],
            cached = False, error = None\<rparr>"
    using w4 f4(5) m v by simp
  show ?thesis
    using demo_extract demo_miss [of demo_id] f1 p a1 f2(5) a2 f3(5) o a3 f4(5) m v a4
    by blast
qed

end
